theory Spec2Isabelle
  imports Complex_Main
begin

section \<open>Python values and the outside world\<close>

text \<open>
  The code under study is \<^verbatim>\<open>code_executor.py\<close>, \<^verbatim>\<open>sandbox.py\<close>,
  \<^verbatim>\<open>resource_limiter.py\<close> and \<^verbatim>\<open>day_36/code_execution_tool.py\<close>.
  Everything it calls outside the repository (the Python parser, \<^verbatim>\<open>subprocess.run\<close>,
  the Docker daemon, \<^verbatim>\<open>bytes.decode\<close>) is a parameter of the model: a \<open>world\<close>
  of oracles that say what each call returns or raises, given the calls made so far.

  An exception is a value. \<open>exc_kind\<close> says which of the classes named in the code's
  \<^verbatim>\<open>except\<close> clauses the exception is an instance of (\<^verbatim>\<open>ImageNotFound\<close> is a
  subclass of \<^verbatim>\<open>DockerException\<close>), \<open>exc_name\<close> is \<^verbatim>\<open>type(e).__name__\<close> and
  \<open>exc_str\<close> is \<^verbatim>\<open>str(e)\<close>. Only instances of \<^verbatim>\<open>Exception\<close> are modelled.
\<close>

datatype exc_kind = TimeoutExpired | ImageNotFound | DockerException | OtherException

datatype exn = Exn (exc_kind: exc_kind) (exc_name: string) (exc_str: string)

definition is_DockerException :: "exn \<Rightarrow> bool" where
  "is_DockerException e = (exc_kind e = ImageNotFound \<or> exc_kind e = DockerException)"

text \<open>What \<^verbatim>\<open>ast.parse(code)\<close> does: returns, raises \<^verbatim>\<open>SyntaxError\<close> (with its
  \<^verbatim>\<open>lineno\<close>, which may be \<^verbatim>\<open>None\<close>, and \<^verbatim>\<open>msg\<close>), or raises something else.\<close>

datatype parse_outcome =
    Parsed
  | RaisesSyntaxError "int option" string
  | RaisesOther exn

datatype bytes = Bytes "char list"

record completed_process =
  returncode :: int
  stdout :: string
  stderr :: string

text \<open>The dictionary returned by \<^verbatim>\<open>container.stats(stream=False)\<close>. A numeric entry
  is \<open>Inr v\<close>, or \<open>Inl k\<close> when the lookup raises \<^verbatim>\<open>KeyError(k)\<close>;
  \<open>memory_stats\<close> is the sub-dictionary read with \<^verbatim>\<open>.get(key, 0)\<close>.\<close>

record stats =
  cpu_total_usage :: "string + int"
  precpu_total_usage :: "string + int"
  cpu_system_usage :: "string + int"
  precpu_system_usage :: "string + int"
  memory_stats :: "string + (int option \<times> int option)"

text \<open>The calls that reach outside the process, with their arguments. A container is
  named by a handle.\<close>

datatype call =
    Spawn string "int option"
  | FromEnv
  | ImagesGet string
  | ImagesPull string
  | Create string string int int string
  | Start nat
  | ExecRun nat string "int option"
  | Stats nat
  | UpdateMem nat string
  | UpdateCpu nat int int
  | Stop nat
  | Remove nat

type_synonym log = "(call \<times> exn option) list"

record world =
  ast_parse :: "string \<Rightarrow> parse_outcome"
  bytes_decode :: "bytes \<Rightarrow> exn + string"
  subprocess_run :: "log \<Rightarrow> call \<Rightarrow> exn + completed_process"
  docker_unit :: "log \<Rightarrow> call \<Rightarrow> exn option"
  containers_create :: "log \<Rightarrow> call \<Rightarrow> exn + nat"
  exec_run :: "log \<Rightarrow> call \<Rightarrow> exn + (int option \<times> bytes option \<times> bytes option)"
  container_stats :: "log \<Rightarrow> call \<Rightarrow> exn + stats"

definition raised :: "exn + 'a \<Rightarrow> exn option" where
  "raised r = (case r of Inl e \<Rightarrow> Some e | Inr _ \<Rightarrow> None)"

definition unit_call :: "world \<Rightarrow> call \<Rightarrow> log \<Rightarrow> exn option \<times> log" where
  "unit_call w c tr = (docker_unit w tr c, tr @ [(c, docker_unit w tr c)])"

subsection \<open>Formatting\<close>

fun digits :: "nat \<Rightarrow> string" where
  "digits n = (if n < 10 then [''0123456789'' ! n] else digits (n div 10) @ [''0123456789'' ! (n mod 10)])"

declare digits.simps [simp del]

definition str_int :: "int \<Rightarrow> string" where
  "str_int i = (if i < 0 then CHR ''-'' # digits (nat (- i)) else digits (nat i))"

definition str_opt_int :: "int option \<Rightarrow> string" where
  "str_opt_int x = (case x of None \<Rightarrow> ''None'' | Some i \<Rightarrow> str_int i)"

definition str_opt :: "string option \<Rightarrow> string" where
  "str_opt x = (case x of None \<Rightarrow> ''None'' | Some s \<Rightarrow> s)"

subsection \<open>Floating point\<close>

text \<open>
  A Python float is an IEEE double: a sign (\<open>True\<close> for negative) with either infinity
  or a magnitude \<open>m * 2 ^ e\<close>. The operations return the canonical form: zero is
  \<open>Finite s 0 0\<close>, a normal number has \<open>2 ^ 52 \<le> m < 2 ^ 53\<close> and \<open>- 1074 \<le> e \<le> 971\<close>,
  a subnormal one has \<open>e = - 1074\<close>. Not-a-number does not arise from what the code
  computes on finite numbers and is left out.
\<close>

datatype pyfloat = Finite bool int int | Infinite bool

function bit_length :: "int \<Rightarrow> int" where
  "bit_length n = (if n \<le> 0 then 0 else 1 + bit_length (n div 2))"
  by pat_completeness auto
termination
  by (relation "measure nat") auto

declare bit_length.simps [simp del]

text \<open>\<open>floor_log2 a b\<close> is the integer part of the binary logarithm of \<open>a / b\<close>, for
  positive \<open>a\<close> and \<open>b\<close>; \<open>scaled a b e\<close> is the fraction \<open>(a / b) / 2 ^ e\<close>;
  \<open>nearest_even n d\<close> is the integer nearest to \<open>n / d\<close>, a tie going to the even one.\<close>

definition floor_log2 :: "int \<Rightarrow> int \<Rightarrow> int" where
  "floor_log2 a b =
     (let k = bit_length a - bit_length b
      in if (if k \<ge> 0 then b * 2 ^ nat k \<le> a else b \<le> a * 2 ^ nat (- k)) then k else k - 1)"

definition scaled :: "int \<Rightarrow> int \<Rightarrow> int \<Rightarrow> int \<times> int" where
  "scaled a b e = (if e \<ge> 0 then (a, b * 2 ^ nat e) else (a * 2 ^ nat (- e), b))"

definition nearest_even :: "int \<Rightarrow> int \<Rightarrow> int" where
  "nearest_even n d =
     (let q = n div d; r = n mod d
      in if 2 * r < d then q else if d < 2 * r then q + 1 else if even q then q else q + 1)"

text \<open>The double nearest to \<open>a / b\<close> (\<open>a \<ge> 0\<close>, \<open>b > 0\<close>) with sign \<open>s\<close>, ties to even:
  53 bits of mantissa, gradual underflow, infinity beyond the largest double.\<close>

definition nearest_double :: "bool \<Rightarrow> int \<Rightarrow> int \<Rightarrow> pyfloat" where
  "nearest_double s a b =
     (if a = 0 then Finite s 0 0
      else
        (let e = max (floor_log2 a b - 52) (- 1074);
             (n, d) = scaled a b e;
             m = nearest_even n d
         in if m = 0 then Finite s 0 0
            else if m = 2 ^ 53 then (if e + 1 > 971 then Infinite s else Finite s (2 ^ 52) (e + 1))
            else if e > 971 then Infinite s
            else Finite s m e))"

text \<open>\<^verbatim>\<open>a / b\<close> on two integers is the correctly rounded quotient; it raises on a zero
  divisor and when the quotient is too large for a double.\<close>

definition truediv :: "int \<Rightarrow> int \<Rightarrow> exn + pyfloat" where
  "truediv a b =
     (if b = 0 then Inl (Exn OtherException ''ZeroDivisionError'' ''division by zero'')
      else
        (case nearest_double ((a < 0) \<noteq> (b < 0)) \<bar>a\<bar> \<bar>b\<bar> of
           Infinite _ \<Rightarrow>
             Inl (Exn OtherException ''OverflowError'' ''integer division result too large for a float'')
         | Finite s m e \<Rightarrow> Inr (Finite s m e)))"

text \<open>\<^verbatim>\<open>x * k\<close> for a float \<open>x\<close> and a positive constant \<open>k\<close> that is exact as a double
  (\<^verbatim>\<open>100.0\<close>, \<^verbatim>\<open>100\<close>, \<^verbatim>\<open>100000\<close>): the exact product, rounded.\<close>

definition fmul :: "pyfloat \<Rightarrow> int \<Rightarrow> pyfloat" where
  "fmul x k =
     (case x of
        Infinite s \<Rightarrow> Infinite s
      | Finite s m e \<Rightarrow>
          (if e \<ge> 0 then nearest_double s (m * k * 2 ^ nat e) 1
           else nearest_double s (m * k) (2 ^ nat (- e))))"

text \<open>\<^verbatim>\<open>round(x, 2)\<close>: the exact value of \<open>x\<close> is rounded to two decimals, ties to
  even, and the decimal is converted to the nearest double.\<close>

definition py_round2 :: "pyfloat \<Rightarrow> pyfloat" where
  "py_round2 x =
     (case x of
        Infinite s \<Rightarrow> Infinite s
      | Finite s m e \<Rightarrow>
          (let (n, d) = scaled (m * 100) 1 (- e)
           in nearest_double s (nearest_even n d) 100))"

text \<open>\<^verbatim>\<open>int(x)\<close> truncates towards zero and raises on infinity.\<close>

definition py_int :: "pyfloat \<Rightarrow> exn + int" where
  "py_int x =
     (case x of
        Infinite _ \<Rightarrow> Inl (Exn OtherException ''OverflowError'' ''cannot convert float infinity to integer'')
      | Finite s m e \<Rightarrow>
          (let t = (if e \<ge> 0 then m * 2 ^ nat e else m div 2 ^ nat (- e))
           in Inr (if s then - t else t)))"

text \<open>The exact value of a finite float.\<close>

definition float_value :: "pyfloat \<Rightarrow> rat" where
  "float_value x =
     (case x of
        Infinite _ \<Rightarrow> 0
      | Finite s m e \<Rightarrow>
          (if s then - 1 else 1) * of_int m * (if e \<ge> 0 then 2 ^ nat e else 1 / 2 ^ nat (- e)))"

section \<open>code\_executor.py\<close>

record validation =
  valid :: bool
  v_error :: "string option"

record exec_result =
  success :: bool
  output' :: "string option"
  error :: "string option"
  error_type :: "string option"

record code_executor =
  default_timeout :: "int option"

definition validate_syntax :: "world \<Rightarrow> string \<Rightarrow> exn + validation" where
  "validate_syntax w code =
     (case ast_parse w code of
        Parsed \<Rightarrow> Inr \<lparr>valid = True, v_error = None\<rparr>
      | RaisesSyntaxError lineno msg \<Rightarrow>
          Inr \<lparr>valid = False,
               v_error = Some (''Syntax error at line '' @ str_opt_int lineno @ '': '' @ msg)\<rparr>
      | RaisesOther e \<Rightarrow> Inl e)"

definition exception_result :: "exn \<Rightarrow> exec_result" where
  "exception_result e =
     \<lparr>success = False, output' = None, error = Some (exc_str e), error_type = Some (exc_name e)\<rparr>"

definition ce_execute :: "world \<Rightarrow> code_executor \<Rightarrow> string \<Rightarrow> int option \<Rightarrow> log \<Rightarrow> (exn + exec_result) \<times> log" where
  "ce_execute w ex code timeout0 tr =
     (let timeout = (if timeout0 = None then default_timeout ex else timeout0)
      in case validate_syntax w code of
           Inl e \<Rightarrow> (Inl e, tr)
         | Inr validation \<Rightarrow>
             if \<not> valid validation then
               (Inr \<lparr>success = False, output' = None, error = v_error validation,
                     error_type = Some ''SyntaxError''\<rparr>, tr)
             else
               (let r = subprocess_run w tr (Spawn code timeout);
                    tr' = tr @ [(Spawn code timeout, raised r)]
                in case r of
                     Inr result \<Rightarrow>
                       if returncode result = 0 then
                         (Inr \<lparr>success = True, output' = Some (stdout result), error = None,
                               error_type = None\<rparr>, tr')
                       else
                         (Inr \<lparr>success = False, output' = Some (stdout result),
                               error = Some (stderr result), error_type = Some ''RuntimeError''\<rparr>, tr')
                   | Inl e \<Rightarrow>
                       if exc_kind e = TimeoutExpired then
                         (Inr \<lparr>success = False, output' = None,
                               error = Some (''Execution timed out after '' @ str_opt_int timeout @ '' seconds''),
                               error_type = Some ''TimeoutError''\<rparr>, tr')
                       else (Inr (exception_result e), tr')))"

section \<open>resource\_limiter.py\<close>

text \<open>The governor's dictionaries \<^verbatim>\<open>{"success": ..., "error": ...}\<close>, and the usage
  sample, which has the three figures when \<^verbatim>\<open>success\<close> is true and the error text
  otherwise.\<close>

record op_result =
  op_success :: bool
  op_error :: "string option"

datatype usage =
    Usage (cpu_percent: pyfloat) (memory_mb: pyfloat) (memory_percent: pyfloat)
  | UsageError (usage_error: string)

definition usage_success :: "usage \<Rightarrow> bool" where
  "usage_success u = (case u of Usage _ _ _ \<Rightarrow> True | UsageError _ \<Rightarrow> False)"

definition op_of :: "exn option \<Rightarrow> op_result" where
  "op_of r = (case r of None \<Rightarrow> \<lparr>op_success = True, op_error = None\<rparr>
                      | Some e \<Rightarrow> \<lparr>op_success = False, op_error = Some (exc_str e)\<rparr>)"

text \<open>\<^verbatim>\<open>container.update(cpu_quota=int(cpu_quota * 100000), cpu_period=100000)\<close> inside
  \<^verbatim>\<open>try\<close>: when the conversion raises, no call is made.\<close>

definition set_cpu_limit :: "world \<Rightarrow> nat \<Rightarrow> pyfloat \<Rightarrow> log \<Rightarrow> op_result \<times> log" where
  "set_cpu_limit w c cpu_quota tr =
     (case py_int (fmul cpu_quota 100000) of
        Inl e \<Rightarrow> (\<lparr>op_success = False, op_error = Some (exc_str e)\<rparr>, tr)
      | Inr quota \<Rightarrow>
          (let (r, tr') = unit_call w (UpdateCpu c quota 100000) tr
           in (op_of r, tr')))"

definition set_memory_limit :: "world \<Rightarrow> nat \<Rightarrow> int \<Rightarrow> log \<Rightarrow> op_result \<times> log" where
  "set_memory_limit w c limit_mb tr =
     (let (r, tr') = unit_call w (UpdateMem c (str_int limit_mb @ ''m'')) tr
      in (op_of r, tr'))"

definition key_error :: "string \<Rightarrow> usage" where
  "key_error k = UsageError ([CHR 0x27] @ k @ [CHR 0x27])"

text \<open>\<^verbatim>\<open>(a / b) * 100 if b > 0 else 0.0\<close>.\<close>

definition percent :: "int \<Rightarrow> int \<Rightarrow> exn + pyfloat" where
  "percent a b =
     (if b > 0 then (case truediv a b of Inl e \<Rightarrow> Inl e | Inr x \<Rightarrow> Inr (fmul x 100))
      else Inr (Finite False 0 0))"

definition sample :: "stats \<Rightarrow> usage" where
  "sample st =
     (case cpu_total_usage st of Inl k \<Rightarrow> key_error k | Inr cpu_now \<Rightarrow>
     (case precpu_total_usage st of Inl k \<Rightarrow> key_error k | Inr cpu_pre \<Rightarrow>
     (case cpu_system_usage st of Inl k \<Rightarrow> key_error k | Inr sys_now \<Rightarrow>
     (case precpu_system_usage st of Inl k \<Rightarrow> key_error k | Inr sys_pre \<Rightarrow>
     (case percent (cpu_now - cpu_pre) (sys_now - sys_pre) of
        Inl e \<Rightarrow> UsageError (exc_str e) | Inr cpu \<Rightarrow>
     (case memory_stats st of Inl k \<Rightarrow> key_error k | Inr (usage_opt, limit_opt) \<Rightarrow>
        (let memory_usage = (case usage_opt of None \<Rightarrow> 0 | Some u \<Rightarrow> u);
             memory_limit = (case limit_opt of None \<Rightarrow> 0 | Some l \<Rightarrow> l)
         in (case truediv memory_usage (1024 * 1024) of
               Inl e \<Rightarrow> UsageError (exc_str e) | Inr mb \<Rightarrow>
            (case percent memory_usage memory_limit of
               Inl e \<Rightarrow> UsageError (exc_str e) | Inr pct \<Rightarrow>
                 Usage (py_round2 cpu) (py_round2 mb) (py_round2 pct))))))))))"

definition monitor_resources :: "world \<Rightarrow> nat \<Rightarrow> log \<Rightarrow> usage \<times> log" where
  "monitor_resources w c tr =
     (let r = container_stats w tr (Stats c);
          tr' = tr @ [(Stats c, raised r)]
      in case r of Inl e \<Rightarrow> (UsageError (exc_str e), tr')
                 | Inr st \<Rightarrow> (sample st, tr'))"

section \<open>sandbox.py\<close>

record sandbox_executor =
  image :: string
  sb_timeout :: "int option"
  sb_memory_limit_mb :: int
  sb_cpu_limit :: pyfloat
  container :: "nat option"

text \<open>The constructor connects to the Docker daemon (\<^verbatim>\<open>docker.from_env()\<close>), which may
  raise.\<close>

definition SandboxExecutor :: "world \<Rightarrow> string \<Rightarrow> int option \<Rightarrow> int \<Rightarrow> pyfloat \<Rightarrow> log \<Rightarrow> (exn + sandbox_executor) \<times> log" where
  "SandboxExecutor w img t mem cpu tr =
     (let (r, tr') = unit_call w FromEnv tr
      in case r of
           Some e \<Rightarrow> (Inl e, tr')
         | None \<Rightarrow> (Inr \<lparr>image = img, sb_timeout = t, sb_memory_limit_mb = mem,
                          sb_cpu_limit = cpu, container = None\<rparr>, tr'))"

text \<open>\<^verbatim>\<open>except DockerException as e: return {"success": False, "error": str(e)}\<close>; any
  other exception leaves \<^verbatim>\<open>create_container\<close>.\<close>

definition docker_failure :: "exn \<Rightarrow> exn + op_result" where
  "docker_failure e =
     (if is_DockerException e then Inr \<lparr>op_success = False, op_error = Some (exc_str e)\<rparr> else Inl e)"

text \<open>The keyword arguments of \<^verbatim>\<open>containers.create\<close> are evaluated before the call: when
  \<^verbatim>\<open>int(self.cpu_limit * 100000)\<close> raises, no call is made.\<close>

definition create_and_start :: "world \<Rightarrow> sandbox_executor \<Rightarrow> log \<Rightarrow> (exn + op_result) \<times> sandbox_executor \<times> log" where
  "create_and_start w sb tr =
     (case py_int (fmul (sb_cpu_limit sb) 100000) of
        Inl e \<Rightarrow> (docker_failure e, sb, tr)
      | Inr quota \<Rightarrow>
          (let c = Create (image sb) (str_int (sb_memory_limit_mb sb) @ ''m'') quota 100000 ''none'';
               r = containers_create w tr c;
               tr1 = tr @ [(c, raised r)]
           in case r of
                Inl e \<Rightarrow> (docker_failure e, sb, tr1)
              | Inr h \<Rightarrow>
                  (let sb' = sb\<lparr>container := Some h\<rparr>;
                       (s, tr2) = unit_call w (Start h) tr1
                   in case s of
                        Some e \<Rightarrow> (docker_failure e, sb', tr2)
                      | None \<Rightarrow> (Inr \<lparr>op_success = True, op_error = None\<rparr>, sb', tr2))))"

definition create_container :: "world \<Rightarrow> sandbox_executor \<Rightarrow> log \<Rightarrow> (exn + op_result) \<times> sandbox_executor \<times> log" where
  "create_container w sb tr =
     (let (g, tr1) = unit_call w (ImagesGet (image sb)) tr
      in case g of
           None \<Rightarrow> create_and_start w sb tr1
         | Some e \<Rightarrow>
             if exc_kind e = ImageNotFound then
               (let (p, tr2) = unit_call w (ImagesPull (image sb)) tr1
                in case p of
                     None \<Rightarrow> create_and_start w sb tr2
                   | Some e' \<Rightarrow> (docker_failure e', sb, tr2))
             else (docker_failure e, sb, tr1))"

definition decode_or_empty :: "world \<Rightarrow> bytes option \<Rightarrow> exn + string" where
  "decode_or_empty w b =
     (case b of
        None \<Rightarrow> Inr []
      | Some (Bytes cs) \<Rightarrow> if cs = [] then Inr [] else bytes_decode w (Bytes cs))"

text \<open>
  \<^verbatim>\<open>Container.exec_run\<close> of the Docker SDK is declared with the parameters below and no
  \<^verbatim>\<open>**kwargs\<close>. Python binds the arguments before the method runs: a keyword that is not
  a parameter raises \<^verbatim>\<open>TypeError\<close>, and nothing is sent to Docker. With accepted
  keywords the daemon is asked, and the call is logged.
\<close>

definition exec_run_parameters :: "string list" where
  "exec_run_parameters =
     [''cmd'', ''stdout'', ''stderr'', ''stdin'', ''tty'', ''privileged'', ''user'', ''detach'',
      ''stream'', ''socket'', ''environment'', ''workdir'', ''demux'']"

definition unexpected_keyword :: "string \<Rightarrow> exn" where
  "unexpected_keyword k =
     Exn OtherException ''TypeError''
       (''Container.exec_run() got an unexpected keyword argument '' @ [CHR 0x27] @ k @ [CHR 0x27])"

definition call_exec_run :: "world \<Rightarrow> nat \<Rightarrow> string \<Rightarrow> string list \<Rightarrow> int option \<Rightarrow> log \<Rightarrow> (exn + (int option \<times> bytes option \<times> bytes option)) \<times> log" where
  "call_exec_run w h cmd keywords tmo tr =
     (case filter (\<lambda>k. k \<notin> set exec_run_parameters) keywords of
        k # _ \<Rightarrow> (Inl (unexpected_keyword k), tr)
      | [] \<Rightarrow>
          (let c = ExecRun h cmd tmo;
               r = exec_run w tr c
           in (r, tr @ [(c, raised r)])))"

text \<open>The \<^verbatim>\<open>try\<close> block of \<^verbatim>\<open>execute_in_container\<close>, on a container that exists: the
  call is \<^verbatim>\<open>exec_run(f"python -c '{code}'", demux=True, timeout=self.timeout)\<close>.\<close>

definition run_in :: "world \<Rightarrow> sandbox_executor \<Rightarrow> nat \<Rightarrow> string \<Rightarrow> log \<Rightarrow> exec_result \<times> log" where
  "run_in w sb h code tr =
     (let (r, tr') = call_exec_run w h (''python -c '' @ [CHR 0x27] @ code @ [CHR 0x27])
                       [''demux'', ''timeout''] (sb_timeout sb) tr
      in case r of
           Inl e \<Rightarrow> (exception_result e, tr')
         | Inr (exit_code, out, err) \<Rightarrow>
             (case decode_or_empty w out of
                Inl e \<Rightarrow> (exception_result e, tr')
              | Inr out_text \<Rightarrow>
                  (case decode_or_empty w err of
                     Inl e \<Rightarrow> (exception_result e, tr')
                   | Inr err_text \<Rightarrow>
                       if exit_code = Some 0 then
                         (\<lparr>success = True, output' = Some out_text, error = None, error_type = None\<rparr>, tr')
                       else
                         (\<lparr>success = False, output' = Some out_text, error = Some err_text,
                           error_type = Some ''RuntimeError''\<rparr>, tr'))))"

text \<open>If creation reported success and yet no container is held (which
  \<^verbatim>\<open>create_container\<close> never does), \<^verbatim>\<open>self.container.exec_run\<close> raises
  \<^verbatim>\<open>AttributeError\<close> inside the \<^verbatim>\<open>try\<close>.\<close>

definition no_container_exn :: exn where
  "no_container_exn =
     Exn OtherException ''AttributeError''
       ([CHR 0x27] @ ''NoneType'' @ [CHR 0x27] @ '' object has no attribute '' @ [CHR 0x27] @ ''exec_run'' @ [CHR 0x27])"

definition run_held :: "world \<Rightarrow> sandbox_executor \<Rightarrow> string \<Rightarrow> log \<Rightarrow> exec_result \<times> log" where
  "run_held w sb code tr =
     (case container sb of
        Some h \<Rightarrow> run_in w sb h code tr
      | None \<Rightarrow> (exception_result no_container_exn, tr))"

definition execute_in_container :: "world \<Rightarrow> sandbox_executor \<Rightarrow> string \<Rightarrow> log \<Rightarrow> (exn + exec_result) \<times> sandbox_executor \<times> log" where
  "execute_in_container w sb code tr =
     (case container sb of
        Some h \<Rightarrow> (let (r, tr') = run_in w sb h code tr in (Inr r, sb, tr'))
      | None \<Rightarrow>
          (let (cr, sb1, tr1) = create_container w sb tr
           in case cr of
                Inl e \<Rightarrow> (Inl e, sb1, tr1)
              | Inr create_result \<Rightarrow>
                  if \<not> op_success create_result then
                    (Inr \<lparr>success = False, output' = None,
                          error = Some (''Container creation failed: '' @ str_opt (op_error create_result)),
                          error_type = Some ''ContainerError''\<rparr>, sb1, tr1)
                  else (let (r, tr2) = run_held w sb1 code tr1 in (Inr r, sb1, tr2))))"

definition get_resource_usage :: "world \<Rightarrow> sandbox_executor \<Rightarrow> log \<Rightarrow> usage \<times> log" where
  "get_resource_usage w sb tr =
     (case container sb of
        None \<Rightarrow> (UsageError ''No container running'', tr)
      | Some h \<Rightarrow> monitor_resources w h tr)"

datatype limits_result =
    LimitsError string
  | LimitsDone (memory_result: "op_result option") (cpu_result: "op_result option")

definition update_limits :: "world \<Rightarrow> sandbox_executor \<Rightarrow> int option \<Rightarrow> pyfloat option \<Rightarrow> log \<Rightarrow> limits_result \<times> log" where
  "update_limits w sb new_memory_mb new_cpu_limit tr =
     (case container sb of
        None \<Rightarrow> (LimitsError ''No container running'', tr)
      | Some h \<Rightarrow>
          (let (m, tr1) = (case new_memory_mb of
                             None \<Rightarrow> (None, tr)
                           | Some mb \<Rightarrow> (let (r, t1) = set_memory_limit w h mb tr in (Some r, t1)));
               (c, tr2) = (case new_cpu_limit of
                             None \<Rightarrow> (None, tr1)
                           | Some q \<Rightarrow> (let (r, t2) = set_cpu_limit w h q tr1 in (Some r, t2)))
           in (LimitsDone m c, tr2)))"

definition cleanup :: "world \<Rightarrow> sandbox_executor \<Rightarrow> log \<Rightarrow> (exn + op_result) \<times> sandbox_executor \<times> log" where
  "cleanup w sb tr =
     (case container sb of
        None \<Rightarrow> (Inr \<lparr>op_success = True, op_error = None\<rparr>, sb, tr)
      | Some h \<Rightarrow>
          (let (s, tr1) = unit_call w (Stop h) tr
           in case s of
                Some e \<Rightarrow> (docker_failure e, sb, tr1)
              | None \<Rightarrow>
                  (let (r, tr2) = unit_call w (Remove h) tr1
                   in case r of
                        Some e \<Rightarrow> (docker_failure e, sb, tr2)
                      | None \<Rightarrow> (Inr \<lparr>op_success = True, op_error = None\<rparr>,
                                  sb\<lparr>container := None\<rparr>, tr2))))"

text \<open>\<^verbatim>\<open>__enter__\<close> drops what \<^verbatim>\<open>create_container\<close> returns; \<^verbatim>\<open>__exit__\<close> drops what
  \<^verbatim>\<open>cleanup\<close> returns and, returning \<^verbatim>\<open>None\<close>, suppresses nothing.\<close>

definition sb_enter :: "world \<Rightarrow> sandbox_executor \<Rightarrow> log \<Rightarrow> exn option \<times> sandbox_executor \<times> log" where
  "sb_enter w sb tr = (let (r, sb', tr') = create_container w sb tr in (raised r, sb', tr'))"

definition sb_exit :: "world \<Rightarrow> sandbox_executor \<Rightarrow> log \<Rightarrow> exn option \<times> sandbox_executor \<times> log" where
  "sb_exit w sb tr = (let (r, sb', tr') = cleanup w sb tr in (raised r, sb', tr'))"

section \<open>day\_36/code\_execution\_tool.py\<close>

record tool_result = exec_result +
  sandboxed :: bool
  resource_usage :: "(pyfloat \<times> pyfloat) option"

record code_execution_tool =
  use_sandbox :: bool
  memory_limit_mb :: int
  cpu_limit :: pyfloat
  timeout :: "int option"
  code_executor :: code_executor

definition CodeExecutionTool :: "bool \<Rightarrow> int \<Rightarrow> pyfloat \<Rightarrow> int option \<Rightarrow> code_execution_tool" where
  "CodeExecutionTool sandbox_on mem cpu t =
     \<lparr>use_sandbox = sandbox_on, memory_limit_mb = mem, cpu_limit = cpu, timeout = t,
      code_executor = \<lparr>default_timeout = t\<rparr>\<rparr>"

text \<open>\<^verbatim>\<open>result["sandboxed"] = ...\<close> and \<^verbatim>\<open>result["resource_usage"] = ...\<close> on the
  dictionary an executor returned.\<close>

definition tagged :: "exec_result \<Rightarrow> bool \<Rightarrow> (pyfloat \<times> pyfloat) option \<Rightarrow> tool_result" where
  "tagged r b u =
     \<lparr>success = success r, output' = output' r, error = error r, error_type = error_type r,
      sandboxed = b, resource_usage = u\<rparr>"

text \<open>Python's \<^verbatim>\<open>timeout or self.timeout\<close>: \<^verbatim>\<open>None\<close> and \<^verbatim>\<open>0\<close> are falsy. A timeout
  is a whole number of seconds or \<^verbatim>\<open>None\<close>; a CPU limit is a float.\<close>

definition py_or :: "int option \<Rightarrow> int option \<Rightarrow> int option" where
  "py_or x y = (if x = None \<or> x = Some 0 then y else x)"

definition sandboxed_body :: "world \<Rightarrow> sandbox_executor \<Rightarrow> string \<Rightarrow> log \<Rightarrow> (exn + tool_result) \<times> sandbox_executor \<times> log" where
  "sandboxed_body w sb code tr =
     (let (r, sb1, tr1) = execute_in_container w sb code tr
      in case r of
           Inl e \<Rightarrow> (Inl e, sb1, tr1)
         | Inr result \<Rightarrow>
             (let (u, tr2) = get_resource_usage w sb1 tr1
              in (Inr (tagged result True
                        (if usage_success u then Some (cpu_percent u, memory_mb u) else None)),
                  sb1, tr2)))"

text \<open>The \<^verbatim>\<open>with SandboxExecutor(...) as sandbox:\<close> statement inside
  \<^verbatim>\<open>try: ... except Exception as e:\<close>. An exception from the constructor or from
  \<^verbatim>\<open>__enter__\<close> skips \<^verbatim>\<open>__exit__\<close>; once \<^verbatim>\<open>__enter__\<close> has returned,
  \<^verbatim>\<open>__exit__\<close> runs however the body ends, and an exception it raises replaces the
  body's outcome.\<close>

definition execute_sandboxed :: "world \<Rightarrow> code_execution_tool \<Rightarrow> string \<Rightarrow> int option \<Rightarrow> log \<Rightarrow> tool_result \<times> log" where
  "execute_sandboxed w t code tmo tr =
     (let (s, tr0) = SandboxExecutor w ''python:3.11-slim'' tmo (memory_limit_mb t) (cpu_limit t) tr
      in case s of
           Inl e \<Rightarrow> (tagged (exception_result e) True None, tr0)
         | Inr sb \<Rightarrow>
             (let (en, sb1, tr1) = sb_enter w sb tr0
              in case en of
                   Some e \<Rightarrow> (tagged (exception_result e) True None, tr1)
                 | None \<Rightarrow>
                     (let (body, sb2, tr2) = sandboxed_body w sb1 code tr1;
                          (ex, sb3, tr3) = sb_exit w sb2 tr2
                      in case ex of
                           Some e \<Rightarrow> (tagged (exception_result e) True None, tr3)
                         | None \<Rightarrow>
                             (case body of
                                Inl e \<Rightarrow> (tagged (exception_result e) True None, tr3)
                              | Inr r \<Rightarrow> (r, tr3)))))"

definition execute :: "world \<Rightarrow> code_execution_tool \<Rightarrow> string \<Rightarrow> bool option \<Rightarrow> int option \<Rightarrow> log \<Rightarrow> (exn + tool_result) \<times> log" where
  "execute w t code sandbox timeout0 tr =
     (let tmo = py_or timeout0 (timeout t)
      in case validate_syntax w code of
           Inl e \<Rightarrow> (Inl e, tr)
         | Inr validation \<Rightarrow>
             if \<not> valid validation then
               (Inr \<lparr>success = False, output' = None, error = v_error validation,
                     error_type = Some ''SyntaxError'', sandboxed = False, resource_usage = None\<rparr>, tr)
             else if use_sandbox t \<or> sandbox = Some True then
               (let (r, tr') = execute_sandboxed w t code tmo tr in (Inr r, tr'))
             else
               (let (r, tr') = ce_execute w (code_executor t) code tmo tr
                in case r of
                     Inl e \<Rightarrow> (Inl e, tr')
                   | Inr result \<Rightarrow> (Inr (tagged result False None), tr')))"

text \<open>The orchestrator's \<^verbatim>\<open>update_limits\<close> touches only the tool's own fields.\<close>

definition tool_update_limits :: "code_execution_tool \<Rightarrow> int option \<Rightarrow> pyfloat option \<Rightarrow> code_execution_tool \<times> (bool \<times> int \<times> pyfloat)" where
  "tool_update_limits t new_memory_mb new_cpu_limit =
     (let t1 = (case new_memory_mb of None \<Rightarrow> t | Some mb \<Rightarrow> t\<lparr>memory_limit_mb := mb\<rparr>);
          t2 = (case new_cpu_limit of None \<Rightarrow> t1 | Some q \<Rightarrow> t1\<lparr>cpu_limit := q\<rparr>)
      in (t2, (True, memory_limit_mb t2, cpu_limit t2)))"

section \<open>Notions the properties are stated with\<close>

text \<open>The invariant of an execution result: a failure carries an error text and an error
  kind, a success carries neither.\<close>

definition result_invariant :: "'a exec_result_scheme \<Rightarrow> bool" where
  "result_invariant r =
     (if success r then error r = None \<and> error_type r = None
      else error r \<noteq> None \<and> error_type r \<noteq> None)"

text \<open>The lifecycle of the container with handle \<open>h\<close>, read from the log of calls made
  on it: a start that returns makes it ready, a command that returns leaves it ready and one
  that raises may have left the command running, a stop or removal that raises is a failed
  teardown, a stop that returns is followed by the removal, which destroys it.\<close>

datatype lifecycle =
  Uninitialized | Ready | Executing | Terminating | Destroyed | ProvisionFailed | TeardownFailed

fun lifecycle_step :: "nat \<Rightarrow> lifecycle \<Rightarrow> call \<times> exn option \<Rightarrow> lifecycle" where
  "lifecycle_step h s (Start h', r) =
     (if h' = h then (if r = None then Ready else ProvisionFailed) else s)"
| "lifecycle_step h s (ExecRun h' _ _, r) =
     (if h' = h then (if r = None then Ready else Executing) else s)"
| "lifecycle_step h s (Stop h', r) =
     (if h' = h then (if r = None then Terminating else TeardownFailed) else s)"
| "lifecycle_step h s (Remove h', r) =
     (if h' = h then (if r = None then Destroyed else TeardownFailed) else s)"
| "lifecycle_step h s _ = s"

definition env_state :: "nat \<Rightarrow> log \<Rightarrow> lifecycle" where
  "env_state h tr = foldl (lifecycle_step h) Uninitialized tr"

text \<open>The log ends with the calls of \<^verbatim>\<open>cleanup\<close> on \<open>h\<close>: a stop that raised, or a stop
  that returned and then the removal.\<close>

definition teardown_at_end :: "nat \<Rightarrow> log \<Rightarrow> bool" where
  "teardown_at_end h tr =
     (case rev tr of
        [] \<Rightarrow> False
      | x # xs \<Rightarrow>
          (fst x = Stop h \<and> snd x \<noteq> None) \<or>
          (fst x = Remove h \<and> (case xs of [] \<Rightarrow> False | y # _ \<Rightarrow> y = (Stop h, None))))"

section \<open>Concrete worlds\<close>

text \<open>The floats \<^verbatim>\<open>0.5\<close> and \<^verbatim>\<open>0.29\<close>.\<close>

definition half :: pyfloat where
  "half = Finite False 4503599627370496 (- 53)"

definition twenty_nine_hundredths :: pyfloat where
  "twenty_nine_hundredths = Finite False 5224175567749775 (- 54)"

text \<open>Statistics with 1 unit of CPU time over 3 of system time, and with 23 over 160;
  1 MiB in use under a limit of 128 MiB.\<close>

definition sample_stats :: stats where
  "sample_stats =
     \<lparr>cpu_total_usage = Inr 1, precpu_total_usage = Inr 0,
      cpu_system_usage = Inr 3, precpu_system_usage = Inr 0,
      memory_stats = Inr (Some 1048576, Some 134217728)\<rparr>"

definition tie_stats :: stats where
  "tie_stats =
     \<lparr>cpu_total_usage = Inr 23, precpu_total_usage = Inr 0,
      cpu_system_usage = Inr 160, precpu_system_usage = Inr 0,
      memory_stats = Inr (Some 1048576, Some 134217728)\<rparr>"

text \<open>Every source parses, every worker process exits with status 0, the Docker daemon
  never fails and hands out the container 7.\<close>

definition calm :: world where
  "calm =
     \<lparr>ast_parse = (\<lambda>_. Parsed),
      bytes_decode = (\<lambda>b. case b of Bytes cs \<Rightarrow> Inr cs),
      subprocess_run = (\<lambda>_ _. Inr \<lparr>returncode = 0, stdout = ''2'', stderr = []\<rparr>),
      docker_unit = (\<lambda>_ _. None),
      containers_create = (\<lambda>_ _. Inr 7),
      exec_run = (\<lambda>_ _. Inr (Some 0, Some (Bytes ''2''), None)),
      container_stats = (\<lambda>_ _. Inr sample_stats)\<rparr>"

definition a_tool :: code_execution_tool where
  "a_tool = CodeExecutionTool True 128 half (Some 30)"

definition a_direct_tool :: code_execution_tool where
  "a_direct_tool = CodeExecutionTool False 128 half (Some 30)"

definition a_sandbox :: sandbox_executor where
  "a_sandbox =
     \<lparr>image = ''python:3.11-slim'', sb_timeout = Some 30, sb_memory_limit_mb = 128,
      sb_cpu_limit = half, container = Some 7\<rparr>"

text \<open>A sandbox object before \<^verbatim>\<open>create_container\<close> has run.\<close>

definition a_fresh_sandbox :: sandbox_executor where
  "a_fresh_sandbox = a_sandbox\<lparr>container := None\<rparr>"


text \<open>On a source with a null byte the parser raises \<^verbatim>\<open>ValueError\<close>, as \<^verbatim>\<open>compile\<close>
  is documented to do.\<close>

definition null_byte_error :: exn where
  "null_byte_error = Exn OtherException ''ValueError'' ''source code string cannot contain null bytes''"

definition choking :: world where
  "choking =
     calm\<lparr>ast_parse := (\<lambda>s. if CHR 0x00 \<in> set s then RaisesOther null_byte_error else Parsed)\<rparr>"

text \<open>The worker process exits with status 1 after printing.\<close>

definition failing :: world where
  "failing =
     calm\<lparr>subprocess_run := (\<lambda>_ _. Inr \<lparr>returncode = 1, stdout = ''partial'', stderr = ''ZeroDivisionError''\<rparr>)\<rparr>"

text \<open>The worker process outlives its deadline.\<close>

definition expired :: exn where
  "expired = Exn TimeoutExpired ''TimeoutExpired'' ''Command timed out after 30 seconds''"

definition stalling :: world where
  "stalling = calm\<lparr>subprocess_run := (\<lambda>_ _. Inl expired)\<rparr>"

text \<open>The interpreter cannot be started; Docker refuses to create a container.\<close>

definition spawn_error :: exn where
  "spawn_error = Exn OtherException ''FileNotFoundError'' ''No such file or directory''"

definition allocation_error :: exn where
  "allocation_error = Exn DockerException ''APIError'' ''500 Server Error''"

definition broken :: world where
  "broken = calm\<lparr>subprocess_run := (\<lambda>_ _. Inl spawn_error), containers_create := (\<lambda>_ _. Inl allocation_error)\<rparr>"

text \<open>Starting the interpreter fails with the operating system's \<^verbatim>\<open>TimeoutError\<close> (an
  \<^verbatim>\<open>OSError\<close>, not \<^verbatim>\<open>subprocess.TimeoutExpired\<close>).\<close>

definition os_timeout :: exn where
  "os_timeout = Exn OtherException ''TimeoutError'' ''[Errno 110] Connection timed out''"

definition sluggish :: world where
  "sluggish = calm\<lparr>subprocess_run := (\<lambda>_ _. Inl os_timeout)\<rparr>"

text \<open>The Docker daemon cannot be reached: looking the image up raises the HTTP library's
  \<^verbatim>\<open>ConnectionError\<close>, which is not a \<^verbatim>\<open>DockerException\<close>.\<close>

definition connection_error :: exn where
  "connection_error = Exn OtherException ''ConnectionError'' ''Connection aborted.''"

definition unreachable :: world where
  "unreachable =
     calm\<lparr>docker_unit := (\<lambda>_ c. case c of ImagesGet _ \<Rightarrow> Some connection_error | _ \<Rightarrow> None)\<rparr>"

text \<open>Starting a container raises \<^verbatim>\<open>ConnectionError\<close>; and, on top of that, the first
  creation of a container is refused by Docker and a later one granted.\<close>

definition unstartable :: world where
  "unstartable =
     calm\<lparr>docker_unit := (\<lambda>_ c. case c of Start _ \<Rightarrow> Some connection_error | _ \<Rightarrow> None)\<rparr>"

definition is_create :: "call \<times> exn option \<Rightarrow> bool" where
  "is_create x = (case fst x of Create _ _ _ _ _ \<Rightarrow> True | _ \<Rightarrow> False)"

definition flaky :: world where
  "flaky =
     unstartable\<lparr>containers_create := (\<lambda>tr _. if list_ex is_create tr then Inr 7 else Inl allocation_error)\<rparr>"

text \<open>Docker rejects every update of a running container.\<close>

definition rigid :: world where
  "rigid = calm\<lparr>docker_unit := (\<lambda>_ c. case c of UpdateMem _ _ \<Rightarrow> Some allocation_error
                                          | UpdateCpu _ _ _ \<Rightarrow> Some allocation_error
                                          | _ \<Rightarrow> None)\<rparr>"

text \<open>Docker accepts updates, and the statistics report the limit of 256 MiB once the
  update to \<^verbatim>\<open>256m\<close> has been accepted.\<close>

definition resized_stats :: stats where
  "resized_stats = sample_stats\<lparr>memory_stats := Inr (Some 1048576, Some 268435456)\<rparr>"

definition resizing :: world where
  "resizing =
     calm\<lparr>container_stats :=
            (\<lambda>tr _. if (UpdateMem 7 ''256m'', None) \<in> set tr then Inr resized_stats
                     else Inr sample_stats)\<rparr>"

text \<open>The statistics are those with the tie.\<close>

definition tied :: world where
  "tied = calm\<lparr>container_stats := (\<lambda>_ _. Inr tie_stats)\<rparr>"

section \<open>Properties\<close>

subsection \<open>The syntax gate\<close>


lemma validate_accepts:
  "ast_parse w code = Parsed \<Longrightarrow> validate_syntax w code = Inr \<lparr>valid = True, v_error = None\<rparr>"
  by (simp add: validate_syntax_def)

lemma validate_raises:
  "ast_parse w code = RaisesOther e \<Longrightarrow> validate_syntax w code = Inl e"
  by (simp add: validate_syntax_def)




subsection \<open>The invariant of results\<close>

lemma invariant_exception_result: "result_invariant (exception_result e)"
  by (simp add: result_invariant_def exception_result_def)

lemma invariant_tagged: "result_invariant (tagged r b u) = result_invariant r"
  by (simp add: result_invariant_def tagged_def)

lemma invariant_failure:
  "result_invariant \<lparr>success = False, output' = x, error = Some m, error_type = Some k, \<dots> = z\<rparr>"
  by (simp add: result_invariant_def)

lemma invariant_rejected:
  "validate_syntax w code = Inr v \<Longrightarrow> \<not> valid v \<Longrightarrow>
   result_invariant \<lparr>success = False, output' = x, error = v_error v, error_type = Some k, \<dots> = z\<rparr>"
  by (auto simp: validate_syntax_def result_invariant_def split: parse_outcome.splits)

lemma invariant_ce_execute:
  "ce_execute w ex code t tr = (Inr r, tr') \<Longrightarrow> result_invariant r"
  by (auto simp: ce_execute_def Let_def validate_syntax_def result_invariant_def exception_result_def
           split: sum.splits if_splits parse_outcome.splits)

lemma call_exec_run_timeout:
  "call_exec_run w h cmd [''demux'', ''timeout''] tmo tr = (Inl (unexpected_keyword ''timeout''), tr)"
  by (simp add: call_exec_run_def exec_run_parameters_def)

lemma run_in_raises:
  "run_in w sb h code tr = (exception_result (unexpected_keyword ''timeout''), tr)"
  by (simp add: run_in_def call_exec_run_timeout)

lemma invariant_run_in: "run_in w sb h code tr = (r, tr') \<Longrightarrow> result_invariant r"
  by (auto simp: run_in_raises invariant_exception_result)

lemma invariant_run_held: "run_held w sb code tr = (r, tr') \<Longrightarrow> result_invariant r"
  by (auto simp: run_held_def invariant_exception_result split: option.splits dest: invariant_run_in)

lemma invariant_execute_in_container:
  "execute_in_container w sb code tr = (Inr r, sb', tr') \<Longrightarrow> result_invariant r"
  by (auto simp: execute_in_container_def Let_def invariant_failure
           split: option.splits prod.splits sum.splits if_splits
           dest: invariant_run_in invariant_run_held)

lemma invariant_sandboxed_body:
  "sandboxed_body w sb code tr = (Inr r, sb', tr') \<Longrightarrow> result_invariant r"
  by (auto simp: sandboxed_body_def Let_def invariant_tagged split: prod.splits sum.splits
           dest: invariant_execute_in_container)

lemma invariant_execute_sandboxed:
  "execute_sandboxed w t code tmo tr = (r, tr') \<Longrightarrow> result_invariant r"
  by (auto simp: execute_sandboxed_def Let_def invariant_tagged invariant_exception_result
           split: prod.splits sum.splits option.splits dest: invariant_sandboxed_body)

lemma invariant_execute:
  "execute w t code sandbox timeout0 tr = (Inr r, tr') \<Longrightarrow> result_invariant r"
  by (auto simp: execute_def Let_def invariant_tagged invariant_rejected
           split: prod.splits sum.splits if_splits
           dest: invariant_execute_sandboxed invariant_ce_execute)

lemma ce_execute_failing:
  "ce_execute failing \<lparr>default_timeout = Some 30\<rparr> ''x = 1 / 0'' None [] =
     (Inr \<lparr>success = False, output' = Some ''partial'', error = Some ''ZeroDivisionError'',
           error_type = Some ''RuntimeError''\<rparr>,
      [(Spawn ''x = 1 / 0'' (Some 30), None)])"
  by (simp add: ce_execute_def failing_def calm_def validate_syntax_def raised_def)

lemma execute_in_container_failing:
  "execute_in_container failing a_sandbox ''x = 1 / 0'' [] =
     (Inr (exception_result (unexpected_keyword ''timeout'')), a_sandbox, [])"
  by (simp add: execute_in_container_def run_in_raises a_sandbox_def)

lemma execute_direct_failing:
  "execute failing a_direct_tool ''x = 1 / 0'' None None [] =
     (Inr \<lparr>success = False, output' = Some ''partial'', error = Some ''ZeroDivisionError'',
           error_type = Some ''RuntimeError'', sandboxed = False, resource_usage = None\<rparr>,
      [(Spawn ''x = 1 / 0'' (Some 30), None)])"
  by (simp add: execute_def ce_execute_def py_or_def tagged_def failing_def calm_def a_direct_tool_def
        CodeExecutionTool_def validate_syntax_def raised_def)

text \<open>
  C2. Whatever the world does, every result that the direct executor's \<open>execute\<close>, the
  sandbox's \<open>execute_in_container\<close> or the orchestrator's \<open>execute\<close> returns satisfies the
  invariant: with \<^verbatim>\<open>success=False\<close> both \<^verbatim>\<open>error\<close> and \<^verbatim>\<open>error_type\<close> are set, with
  \<^verbatim>\<open>success=True\<close> both are \<^verbatim>\<open>None\<close>.
\<close>

theorem results_keep_invariant:
  "(\<forall>r tr'. ce_execute w ex code t tr = (Inr r, tr') \<longrightarrow> result_invariant r) \<and>
   (\<forall>r sb' tr'. execute_in_container w sb code tr = (Inr r, sb', tr') \<longrightarrow> result_invariant r) \<and>
   (\<forall>r tr'. execute w tool code sandbox timeout0 tr = (Inr r, tr') \<longrightarrow> result_invariant r)"
  by (auto dest: invariant_ce_execute invariant_execute_in_container invariant_execute)

theorem results_keep_invariant_witness:
  "ce_execute failing \<lparr>default_timeout = Some 30\<rparr> ''x = 1 / 0'' None [] =
     (Inr \<lparr>success = False, output' = Some ''partial'', error = Some ''ZeroDivisionError'',
           error_type = Some ''RuntimeError''\<rparr>,
      [(Spawn ''x = 1 / 0'' (Some 30), None)]) \<and>
   execute_in_container failing a_sandbox ''x = 1 / 0'' [] =
     (Inr (exception_result (unexpected_keyword ''timeout'')), a_sandbox, []) \<and>
   result_invariant (exception_result (unexpected_keyword ''timeout'')) \<and>
   execute failing a_direct_tool ''x = 1 / 0'' None None [] =
     (Inr \<lparr>success = False, output' = Some ''partial'', error = Some ''ZeroDivisionError'',
           error_type = Some ''RuntimeError'', sandboxed = False, resource_usage = None\<rparr>,
      [(Spawn ''x = 1 / 0'' (Some 30), None)]) \<and>
   result_invariant \<lparr>success = False, output' = Some ''partial'', error = Some ''ZeroDivisionError'',
           error_type = Some ''RuntimeError''\<rparr> \<and>
   result_invariant \<lparr>success = False, output' = Some ''partial'', error = Some ''ZeroDivisionError'',
           error_type = Some ''RuntimeError'', sandboxed = False, resource_usage = None\<rparr>"
  using results_keep_invariant [of failing "\<lparr>default_timeout = Some 30\<rparr>" "''x = 1 / 0''" None "[]"
          a_sandbox a_direct_tool None None]
    ce_execute_failing execute_in_container_failing execute_direct_failing
  by simp

subsection \<open>The sandbox's call of exec\_run\<close>

text \<open>The sandbox passes \<^verbatim>\<open>timeout=self.timeout\<close> to \<^verbatim>\<open>Container.exec_run\<close>, which has no
  such parameter. So no command is ever run in a container, and no result of the sandbox,
  or of the orchestrator in sandbox mode, is a success.\<close>

lemma run_held_fails: "run_held w sb code tr = (r, tr') \<Longrightarrow> \<not> success r"
  by (auto simp: run_held_def run_in_raises exception_result_def split: option.splits)

lemma execute_in_container_never_succeeds:
  "execute_in_container w sb code tr = (Inr r, sb', tr') \<Longrightarrow> \<not> success r"
  by (auto simp: execute_in_container_def run_in_raises exception_result_def Let_def
           split: option.splits prod.splits sum.splits if_splits dest: run_held_fails)

lemma sandboxed_body_never_succeeds:
  "sandboxed_body w sb code tr = (Inr r, sb', tr') \<Longrightarrow> \<not> success r"
  by (auto simp: sandboxed_body_def tagged_def Let_def split: prod.splits sum.splits
           dest: execute_in_container_never_succeeds)

lemma execute_sandboxed_never_succeeds:
  "execute_sandboxed w t code tmo tr = (r, tr') \<Longrightarrow> \<not> success r"
  by (auto simp: execute_sandboxed_def tagged_def exception_result_def Let_def
           split: prod.splits sum.splits option.splits dest: sandboxed_body_never_succeeds)

lemma sandbox_mode_never_succeeds:
  "use_sandbox t \<or> sandbox = Some True \<Longrightarrow>
   execute w t code sandbox timeout0 tr = (Inr r, tr') \<Longrightarrow> \<not> success r"
  by (auto simp: execute_def Let_def split: sum.splits if_splits prod.splits
           dest: execute_sandboxed_never_succeeds)

lemma str_int_128: "str_int 128 = ''128''"
  by (simp add: str_int_def digits.simps)

lemma str_int_30: "str_int 30 = ''30''"
  by (simp add: str_int_def digits.simps)

lemma quota_half: "py_int (fmul half 100000) = Inr 50000"
  unfolding half_def by code_simp

lemma sample_sample_stats:
  "sample sample_stats =
     Usage (Finite False 4690780486883082 (- 47)) (Finite False 4503599627370496 (- 52))
           (Finite False 7025615418697974 (- 53))"
  unfolding sample_stats_def by code_simp

subsection \<open>Exit status\<close>

lemma direct_exit_status_reported:
  "ast_parse w code = Parsed \<Longrightarrow>
   subprocess_run w tr (Spawn code (if t = None then default_timeout ex else t)) = Inr p \<Longrightarrow>
   ce_execute w ex code t tr =
     (Inr (if returncode p = 0
           then \<lparr>success = True, output' = Some (stdout p), error = None, error_type = None\<rparr>
           else \<lparr>success = False, output' = Some (stdout p), error = Some (stderr p),
                 error_type = Some ''RuntimeError''\<rparr>),
      tr @ [(Spawn code (if t = None then default_timeout ex else t), None)])"
  by (simp add: ce_execute_def validate_accepts raised_def Let_def)

text \<open>
  C5 fails in the sandbox. The direct executor reports the exit status as the claim says
  (\<open>direct_exit_status_reported\<close>). In the sandbox, with a container at hand and a Docker
  daemon that would run the command with exit status 0 and the output \<^verbatim>\<open>2\<close>,
  \<open>execute_in_container\<close> returns \<^verbatim>\<open>success=False\<close> with \<^verbatim>\<open>error_type="TypeError"\<close> and no
  output, without asking the daemon; and so does the orchestrator in sandbox mode, which
  creates the container, samples it and tears it down without having run the source.
\<close>

theorem sandbox_reports_no_exit_status:
  "execute_in_container calm a_sandbox ''print(1 + 1)'' [] =
     (Inr \<lparr>success = False, output' = None,
           error = Some (''Container.exec_run() got an unexpected keyword argument ''
                         @ [CHR 0x27] @ ''timeout'' @ [CHR 0x27]),
           error_type = Some ''TypeError''\<rparr>,
      a_sandbox, []) \<and>
   execute calm a_tool ''print(1 + 1)'' None None [] =
     (Inr \<lparr>success = False, output' = None,
           error = Some (''Container.exec_run() got an unexpected keyword argument ''
                         @ [CHR 0x27] @ ''timeout'' @ [CHR 0x27]),
           error_type = Some ''TypeError'', sandboxed = True,
           resource_usage = Some (Finite False 4690780486883082 (- 47),
                                  Finite False 4503599627370496 (- 52))\<rparr>,
      [(FromEnv, None), (ImagesGet ''python:3.11-slim'', None),
       (Create ''python:3.11-slim'' ''128m'' 50000 100000 ''none'', None), (Start 7, None),
       (Stats 7, None), (Stop 7, None), (Remove 7, None)])"
  by (simp add: execute_def execute_sandboxed_def SandboxExecutor_def sb_enter_def sb_exit_def
        sandboxed_body_def usage_success_def execute_in_container_def run_in_raises
        create_container_def create_and_start_def get_resource_usage_def monitor_resources_def
        cleanup_def unit_call_def validate_syntax_def py_or_def raised_def tagged_def
        exception_result_def unexpected_keyword_def a_tool_def a_sandbox_def
        CodeExecutionTool_def calm_def sample_sample_stats str_int_128 quota_half Let_def)

subsection \<open>Deadlines\<close>

lemma direct_deadline_reported:
  "ast_parse w code = Parsed \<Longrightarrow>
   subprocess_run w tr (Spawn code (if t = None then default_timeout ex else t)) = Inl e \<Longrightarrow>
   exc_kind e = TimeoutExpired \<Longrightarrow>
   ce_execute w ex code t tr =
     (Inr \<lparr>success = False, output' = None,
           error = Some (''Execution timed out after ''
                         @ str_opt_int (if t = None then default_timeout ex else t) @ '' seconds''),
           error_type = Some ''TimeoutError''\<rparr>,
      tr @ [(Spawn code (if t = None then default_timeout ex else t), Some e)])"
  by (simp add: ce_execute_def validate_accepts raised_def Let_def)

text \<open>
  C3 fails in the sandbox. When the worker process outlives its deadline, the direct
  executor returns \<^verbatim>\<open>error_type="TimeoutError"\<close> (\<open>direct_deadline_reported\<close>, and the
  first half below). The sandbox, given a deadline of 30 seconds and a source that never
  ends, returns \<^verbatim>\<open>error_type="TypeError"\<close>: the deadline it passes to
  \<^verbatim>\<open>Container.exec_run\<close> is not a parameter of that method, so that no command is started,
  none is terminated and no deadline is enforced.
\<close>

theorem sandbox_deadline_is_a_type_error:
  "ce_execute stalling \<lparr>default_timeout = Some 30\<rparr> ''while True: pass'' None [] =
     (Inr \<lparr>success = False, output' = None,
           error = Some ''Execution timed out after 30 seconds'',
           error_type = Some ''TimeoutError''\<rparr>,
      [(Spawn ''while True: pass'' (Some 30), Some expired)]) \<and>
   sb_timeout a_sandbox = Some 30 \<and>
   execute_in_container stalling a_sandbox ''while True: pass'' [] =
     (Inr \<lparr>success = False, output' = None,
           error = Some (''Container.exec_run() got an unexpected keyword argument ''
                         @ [CHR 0x27] @ ''timeout'' @ [CHR 0x27]),
           error_type = Some ''TypeError''\<rparr>,
      a_sandbox, [])"
  by (simp add: ce_execute_def validate_syntax_def execute_in_container_def run_in_raises
        exception_result_def unexpected_keyword_def stalling_def calm_def a_sandbox_def
        expired_def raised_def str_opt_int_def str_int_30)

subsection \<open>Failures of the infrastructure\<close>

lemma docker_failure_reports:
  "docker_failure e = Inr r \<Longrightarrow> is_DockerException e \<and> r = \<lparr>op_success = False, op_error = Some (exc_str e)\<rparr>"
  by (auto simp: docker_failure_def split: if_splits)

lemma docker_failure_of_docker:
  "is_DockerException d \<Longrightarrow> docker_failure d = Inr \<lparr>op_success = False, op_error = Some (exc_str d)\<rparr>"
  by (simp add: docker_failure_def)

lemma create_and_start_last_raised:
  "create_and_start w sb tr = (r, sb', tr') \<Longrightarrow> tr' \<noteq> tr \<Longrightarrow> snd (last tr') = Some d \<Longrightarrow>
   r = docker_failure d"
  by (auto simp: create_and_start_def unit_call_def Let_def raised_def
           split: sum.splits option.splits prod.splits)

lemma create_and_start_extends:
  "create_and_start w sb tr = (r, sb', tr') \<Longrightarrow> tr' = tr \<or> (\<exists>x evs. tr' = tr @ evs @ [x])"
  by (auto simp: create_and_start_def unit_call_def Let_def
           split: sum.splits option.splits prod.splits)

lemma create_container_last_raised:
  assumes "create_container w sb tr = (r, sb', tr')" and "snd (last tr') = Some d"
  shows "r = docker_failure d"
proof -
  let ?g = "docker_unit w tr (ImagesGet (image sb))"
  let ?tr1 = "tr @ [(ImagesGet (image sb), ?g)]"
  let ?p = "docker_unit w ?tr1 (ImagesPull (image sb))"
  let ?tr2 = "?tr1 @ [(ImagesPull (image sb), ?p)]"
  consider (direct) "?g = None" "create_and_start w sb ?tr1 = (r, sb', tr')"
    | (pulled) "?p = None" "create_and_start w sb ?tr2 = (r, sb', tr')"
    | (no_pull) e where "?p = Some e" "r = docker_failure e" "tr' = ?tr2"
    | (no_image) e where "?g = Some e" "r = docker_failure e" "tr' = ?tr1"
    using assms(1)
    by (auto simp: create_container_def unit_call_def Let_def split: option.splits if_splits)
  then show ?thesis
  proof cases
    case direct
    show ?thesis
    proof (cases "tr' = ?tr1")
      case True
      with assms(2) direct(1) show ?thesis by simp
    next
      case False
      from create_and_start_last_raised [OF direct(2) False assms(2)] show ?thesis .
    qed
  next
    case pulled
    show ?thesis
    proof (cases "tr' = ?tr2")
      case True
      with assms(2) pulled(1) show ?thesis by simp
    next
      case False
      from create_and_start_last_raised [OF pulled(2) False assms(2)] show ?thesis .
    qed
  next
    case no_pull
    with assms(2) show ?thesis by simp
  next
    case no_image
    with assms(2) show ?thesis by simp
  qed
qed

text \<open>
  C6, as stated, fails. A worker that cannot be started because the operating system
  raised its \<^verbatim>\<open>TimeoutError\<close> is reported with the error kind \<^verbatim>\<open>TimeoutError\<close>, the
  kind of an expired deadline. And when the Docker daemon cannot be reached, so that
  looking the image up raises an exception that is not a \<^verbatim>\<open>DockerException\<close>,
  \<open>execute_in_container\<close> returns no result: the exception leaves it.
\<close>

theorem infrastructure_failure_counterexample:
  "ce_execute sluggish \<lparr>default_timeout = Some 30\<rparr> ''print(1)'' None [] =
     (Inr \<lparr>success = False, output' = None, error = Some ''[Errno 110] Connection timed out'',
           error_type = Some ''TimeoutError''\<rparr>,
      [(Spawn ''print(1)'' (Some 30), Some os_timeout)]) \<and>
   fst (ce_execute stalling \<lparr>default_timeout = Some 30\<rparr> ''print(1)'' None []) =
     Inr \<lparr>success = False, output' = None, error = Some ''Execution timed out after 30 seconds'',
          error_type = Some ''TimeoutError''\<rparr> \<and>
   execute_in_container unreachable a_fresh_sandbox ''print(1)'' [] =
     (Inl connection_error, a_fresh_sandbox,
      [(ImagesGet ''python:3.11-slim'', Some connection_error)])"
  by (simp add: ce_execute_def validate_syntax_def exception_result_def sluggish_def stalling_def
        calm_def os_timeout_def expired_def raised_def str_opt_int_def str_int_30
        execute_in_container_def create_container_def unit_call_def docker_failure_def
        is_DockerException_def unreachable_def connection_error_def a_fresh_sandbox_def
        a_sandbox_def)

text \<open>
  C6, amended. When the parser accepts the source and starting the worker process raises
  anything but \<^verbatim>\<open>TimeoutExpired\<close>, the direct executor returns \<^verbatim>\<open>success=False\<close>, no
  output, the exception's text and, as error kind, the exception's class name. When a
  sandbox without a container tries to create one and the last Docker call it makes
  raises a \<^verbatim>\<open>DockerException\<close>, \<open>execute_in_container\<close> returns \<^verbatim>\<open>success=False\<close>, no
  output, the error kind \<^verbatim>\<open>ContainerError\<close> and the exception's text after
  \<^verbatim>\<open>Container creation failed: \<close>.
\<close>

theorem infrastructure_failures_reported:
  "(ast_parse w code = Parsed \<longrightarrow>
    subprocess_run w tr (Spawn code (if t = None then default_timeout ex else t)) = Inl e \<longrightarrow>
    exc_kind e \<noteq> TimeoutExpired \<longrightarrow>
    ce_execute w ex code t tr =
      (Inr \<lparr>success = False, output' = None, error = Some (exc_str e),
            error_type = Some (exc_name e)\<rparr>,
       tr @ [(Spawn code (if t = None then default_timeout ex else t), Some e)])) \<and>
   (container sb = None \<longrightarrow>
    create_container w sb tr = (r, sb1, tr1) \<longrightarrow>
    snd (last tr1) = Some d \<longrightarrow>
    is_DockerException d \<longrightarrow>
    execute_in_container w sb code tr =
      (Inr \<lparr>success = False, output' = None,
            error = Some (''Container creation failed: '' @ exc_str d),
            error_type = Some ''ContainerError''\<rparr>, sb1, tr1))"
proof (intro conjI impI)
  assume "ast_parse w code = Parsed"
    and "subprocess_run w tr (Spawn code (if t = None then default_timeout ex else t)) = Inl e"
    and "exc_kind e \<noteq> TimeoutExpired"
  then show "ce_execute w ex code t tr =
      (Inr \<lparr>success = False, output' = None, error = Some (exc_str e),
            error_type = Some (exc_name e)\<rparr>,
       tr @ [(Spawn code (if t = None then default_timeout ex else t), Some e)])"
    by (simp add: ce_execute_def validate_accepts exception_result_def raised_def Let_def)
next
  assume none: "container sb = None"
    and cr: "create_container w sb tr = (r, sb1, tr1)"
    and last: "snd (last tr1) = Some d"
    and docker: "is_DockerException d"
  from create_container_last_raised [OF cr last] docker
  have "r = Inr \<lparr>op_success = False, op_error = Some (exc_str d)\<rparr>"
    by (simp add: docker_failure_of_docker)
  with none cr show "execute_in_container w sb code tr =
      (Inr \<lparr>success = False, output' = None,
            error = Some (''Container creation failed: '' @ exc_str d),
            error_type = Some ''ContainerError''\<rparr>, sb1, tr1)"
    by (simp add: execute_in_container_def str_opt_def)
qed

lemma create_container_broken:
  "create_container broken a_fresh_sandbox [] =
     (Inr \<lparr>op_success = False, op_error = Some ''500 Server Error''\<rparr>, a_fresh_sandbox,
      [(ImagesGet ''python:3.11-slim'', None),
       (Create ''python:3.11-slim'' ''128m'' 50000 100000 ''none'', Some allocation_error)])"
  by (simp add: create_container_def create_and_start_def unit_call_def docker_failure_def
        is_DockerException_def raised_def broken_def calm_def a_fresh_sandbox_def a_sandbox_def
        allocation_error_def str_int_128 quota_half)

theorem infrastructure_failures_reported_witness:
  "ast_parse broken ''print(1)'' = Parsed \<and>
   subprocess_run broken [] (Spawn ''print(1)'' (Some 30)) = Inl spawn_error \<and>
   exc_kind spawn_error \<noteq> TimeoutExpired \<and>
   ce_execute broken \<lparr>default_timeout = Some 30\<rparr> ''print(1)'' None [] =
     (Inr \<lparr>success = False, output' = None, error = Some ''No such file or directory'',
           error_type = Some ''FileNotFoundError''\<rparr>,
      [(Spawn ''print(1)'' (Some 30), Some spawn_error)]) \<and>
   container a_fresh_sandbox = None \<and>
   is_DockerException allocation_error \<and>
   execute_in_container broken a_fresh_sandbox ''print(1)'' [] =
     (Inr \<lparr>success = False, output' = None,
           error = Some ''Container creation failed: 500 Server Error'',
           error_type = Some ''ContainerError''\<rparr>, a_fresh_sandbox,
      [(ImagesGet ''python:3.11-slim'', None),
       (Create ''python:3.11-slim'' ''128m'' 50000 100000 ''none'', Some allocation_error)])"
proof -
  have p: "ast_parse broken ''print(1)'' = Parsed"
    "subprocess_run broken [] (Spawn ''print(1)'' (Some 30)) = Inl spawn_error"
    by (simp_all add: broken_def calm_def)
  have k: "exc_kind spawn_error \<noteq> TimeoutExpired" "is_DockerException allocation_error"
    "container a_fresh_sandbox = None"
    by (simp_all add: spawn_error_def allocation_error_def is_DockerException_def
          a_fresh_sandbox_def)
  have s: "exc_str spawn_error = ''No such file or directory''"
    "exc_name spawn_error = ''FileNotFoundError''" "exc_str allocation_error = ''500 Server Error''"
    by (simp_all add: spawn_error_def allocation_error_def)
  show ?thesis
    using infrastructure_failures_reported [of broken "''print(1)''" "[]" None
            "\<lparr>default_timeout = Some 30\<rparr>" spawn_error a_fresh_sandbox
            "Inr \<lparr>op_success = False, op_error = Some ''500 Server Error''\<rparr>" a_fresh_sandbox
            "[(ImagesGet ''python:3.11-slim'', None),
              (Create ''python:3.11-slim'' ''128m'' 50000 100000 ''none'', Some allocation_error)]"
            allocation_error]
      create_container_broken p k s
    by simp
qed

subsection \<open>The timeout argument\<close>

lemma py_or_falsy: "x = None \<or> x = Some 0 \<Longrightarrow> py_or x y = py_or y y"
  by (auto simp: py_or_def)

text \<open>
  C10. The orchestrator's \<open>execute\<close> called with the timeout \<^verbatim>\<open>None\<close> or \<^verbatim>\<open>0\<close> behaves
  exactly as when called with the tool's own timeout; in direct mode with a tool timeout
  \<open>d \<noteq> 0\<close>, the worker process of \<^verbatim>\<open>execute(code, timeout=0)\<close> is started with the
  deadline \<open>d\<close>. The direct executor starts the worker with the deadline \<^verbatim>\<open>0\<close> when given
  \<^verbatim>\<open>0\<close>, and with its default only when given \<^verbatim>\<open>None\<close>.
\<close>

theorem falsy_timeout_defaults:
  "(timeout0 = None \<or> timeout0 = Some 0 \<longrightarrow>
      execute w t code sandbox timeout0 tr = execute w t code sandbox (timeout t) tr) \<and>
   (ast_parse w code = Parsed \<longrightarrow> \<not> use_sandbox t \<longrightarrow> sandbox \<noteq> Some True \<longrightarrow>
    timeout t = Some d \<longrightarrow> d \<noteq> 0 \<longrightarrow>
      snd (execute w t code sandbox (Some 0) tr) =
        tr @ [(Spawn code (Some d), raised (subprocess_run w tr (Spawn code (Some d))))]) \<and>
   (ast_parse w code = Parsed \<longrightarrow>
      snd (ce_execute w ex code (Some 0) tr) =
        tr @ [(Spawn code (Some 0), raised (subprocess_run w tr (Spawn code (Some 0))))] \<and>
      snd (ce_execute w ex code None tr) =
        tr @ [(Spawn code (default_timeout ex),
               raised (subprocess_run w tr (Spawn code (default_timeout ex))))])"
proof (intro conjI impI)
  assume "timeout0 = None \<or> timeout0 = Some 0"
  then have "py_or timeout0 (timeout t) = py_or (timeout t) (timeout t)"
    by (rule py_or_falsy)
  then show "execute w t code sandbox timeout0 tr = execute w t code sandbox (timeout t) tr"
    by (simp add: execute_def)
next
  assume "ast_parse w code = Parsed" "\<not> use_sandbox t" "sandbox \<noteq> Some True"
    "timeout t = Some d" "d \<noteq> 0"
  then show "snd (execute w t code sandbox (Some 0) tr) =
        tr @ [(Spawn code (Some d), raised (subprocess_run w tr (Spawn code (Some d))))]"
    by (simp add: execute_def ce_execute_def validate_accepts py_or_def Let_def
             split: sum.splits prod.splits)
next
  assume "ast_parse w code = Parsed"
  then show "snd (ce_execute w ex code (Some 0) tr) =
        tr @ [(Spawn code (Some 0), raised (subprocess_run w tr (Spawn code (Some 0))))]"
    by (simp add: ce_execute_def validate_accepts Let_def split: sum.splits)
next
  assume "ast_parse w code = Parsed"
  then show "snd (ce_execute w ex code None tr) =
        tr @ [(Spawn code (default_timeout ex),
               raised (subprocess_run w tr (Spawn code (default_timeout ex))))]"
    by (simp add: ce_execute_def validate_accepts Let_def split: sum.splits)
qed

theorem falsy_timeout_defaults_witness:
  "ast_parse calm ''print(1 + 1)'' = Parsed \<and> \<not> use_sandbox a_direct_tool \<and>
   timeout a_direct_tool = Some 30 \<and>
   snd (execute calm a_direct_tool ''print(1 + 1)'' None (Some 0) []) =
     [(Spawn ''print(1 + 1)'' (Some 30), None)] \<and>
   snd (ce_execute calm \<lparr>default_timeout = Some 30\<rparr> ''print(1 + 1)'' (Some 0) []) =
     [(Spawn ''print(1 + 1)'' (Some 0), None)] \<and>
   snd (ce_execute calm \<lparr>default_timeout = Some 30\<rparr> ''print(1 + 1)'' None []) =
     [(Spawn ''print(1 + 1)'' (Some 30), None)]"
proof -
  have p: "ast_parse calm ''print(1 + 1)'' = Parsed"
    by (simp add: calm_def)
  have u: "\<not> use_sandbox a_direct_tool" "timeout a_direct_tool = Some 30"
    by (simp_all add: a_direct_tool_def CodeExecutionTool_def)
  have r: "raised (subprocess_run calm [] (Spawn ''print(1 + 1)'' (Some 30))) = None"
    "raised (subprocess_run calm [] (Spawn ''print(1 + 1)'' (Some 0))) = None"
    by (simp_all add: calm_def raised_def)
  show ?thesis
    using falsy_timeout_defaults [of "Some 0" calm a_direct_tool "''print(1 + 1)''" None "[]" 30
            "\<lparr>default_timeout = Some 30\<rparr>"] p u r
    by auto
qed

subsection \<open>Exceptions at the boundary\<close>

lemma execute_raises_with_parser:
  "ast_parse w code = RaisesOther e \<Longrightarrow> execute w t code sandbox timeout0 tr = (Inl e, tr)"
  by (simp add: execute_def validate_raises)

lemma execute_returns_otherwise:
  "(\<forall>e. ast_parse w code \<noteq> RaisesOther e) \<Longrightarrow> \<exists>r. fst (execute w t code sandbox timeout0 tr) = Inr r"
  by (auto simp: execute_def ce_execute_def validate_syntax_def Let_def
           split: parse_outcome.splits prod.splits sum.splits)

lemma governor_returns_data:
  "(py_int (fmul q 100000) = Inr quota \<longrightarrow>
      fst (set_cpu_limit w h q tr) = op_of (docker_unit w tr (UpdateCpu h quota 100000))) \<and>
   (py_int (fmul q 100000) = Inl e \<longrightarrow>
      set_cpu_limit w h q tr = (\<lparr>op_success = False, op_error = Some (exc_str e)\<rparr>, tr)) \<and>
   fst (set_memory_limit w h mb tr) = op_of (docker_unit w tr (UpdateMem h (str_int mb @ ''m''))) \<and>
   (container_stats w tr (Stats h) = Inl e \<longrightarrow> fst (monitor_resources w h tr) = UsageError (exc_str e))"
  by (simp add: set_cpu_limit_def set_memory_limit_def unit_call_def monitor_resources_def)

text \<open>
  C7. The governor's three operations return their failures as data
  (\<open>governor_returns_data\<close>), and \<open>execute\<close> returns a result whenever the parser
  returns or raises \<^verbatim>\<open>SyntaxError\<close> (\<open>execute_returns_otherwise\<close>). But
  \<^verbatim>\<open>validate_syntax\<close> catches \<^verbatim>\<open>SyntaxError\<close> only and is called outside every
  \<^verbatim>\<open>try\<close>: on a source with a null byte, for which the parser raises \<^verbatim>\<open>ValueError\<close>,
  the orchestrator's \<open>execute\<close> raises that exception to its caller, in direct and in
  sandbox mode.
\<close>

theorem parser_exception_escapes_execute:
  "execute choking a_direct_tool [CHR 0x00] None None [] = (Inl null_byte_error, []) \<and>
   execute choking a_tool [CHR 0x00] None None [] = (Inl null_byte_error, [])"
  by (simp add: execute_def validate_syntax_def choking_def calm_def)

subsection \<open>Usage samples\<close>

lemma sample_tie_stats:
  "sample tie_stats =
     Usage (Finite False 8089590830664253 (- 49)) (Finite False 4503599627370496 (- 52))
           (Finite False 7025615418697974 (- 53))"
  unfolding tie_stats_def by code_simp

lemma third_as_percent:
  "truediv (1 - 0) (3 - 0) = Inr (Finite False 6004799503160661 (- 54)) \<and>
   fmul (Finite False 6004799503160661 (- 54)) 100 = Finite False 4691249611844266 (- 47)"
  by code_simp

text \<open>
  C8, as stated, fails: with 1 unit of CPU time consumed over 3 units of system time the
  float \<^verbatim>\<open>(1 / 3) * 100.0\<close> is 33.33333333333333, and the reported CPU percent is
  the float 33.33, which is neither that float nor the quotient 100/3.
\<close>

theorem usage_percent_counterexample:
  "container_stats calm [] (Stats 7) = Inr sample_stats \<and>
   cpu_total_usage sample_stats = Inr 1 \<and> precpu_total_usage sample_stats = Inr 0 \<and>
   cpu_system_usage sample_stats = Inr 3 \<and> precpu_system_usage sample_stats = Inr 0 \<and>
   truediv (1 - 0) (3 - 0) = Inr (Finite False 6004799503160661 (- 54)) \<and>
   fmul (Finite False 6004799503160661 (- 54)) 100 = Finite False 4691249611844266 (- 47) \<and>
   cpu_percent (fst (monitor_resources calm 7 [])) = Finite False 4690780486883082 (- 47) \<and>
   float_value (Finite False 4690780486883082 (- 47)) \<noteq> of_int (1 - 0) / of_int (3 - 0) * 100"
proof -
  have f: "cpu_total_usage sample_stats = Inr 1" "precpu_total_usage sample_stats = Inr 0"
    "cpu_system_usage sample_stats = Inr 3" "precpu_system_usage sample_stats = Inr 0"
    by (simp_all add: sample_stats_def)
  have m: "container_stats calm [] (Stats 7) = Inr sample_stats"
    "cpu_percent (fst (monitor_resources calm 7 [])) = Finite False 4690780486883082 (- 47)"
    by (simp_all add: monitor_resources_def calm_def sample_sample_stats)
  have v: "float_value (Finite False 4690780486883082 (- 47)) \<noteq> of_int (1 - 0) / of_int (3 - 0) * 100"
    by (simp add: float_value_def)
  show ?thesis
    using f m v third_as_percent by simp
qed

lemma usage_percentages_rounded_core:
  assumes "cpu_total_usage st = Inr cpu_now" and "precpu_total_usage st = Inr cpu_pre"
    and "cpu_system_usage st = Inr sys_now" and "precpu_system_usage st = Inr sys_pre"
    and "memory_stats st = Inr (usage_opt, limit_opt)"
    and "used = (case usage_opt of None \<Rightarrow> 0 | Some u \<Rightarrow> u)"
    and "limit = (case limit_opt of None \<Rightarrow> 0 | Some l \<Rightarrow> l)"
    and "sys_now - sys_pre > 0 \<longrightarrow> truediv (cpu_now - cpu_pre) (sys_now - sys_pre) = Inr c"
    and "truediv used (1024 * 1024) = Inr mb"
    and "limit > 0 \<longrightarrow> truediv used limit = Inr m"
  shows "sample st =
           Usage (py_round2 (if sys_now - sys_pre > 0 then fmul c 100 else Finite False 0 0))
                 (py_round2 mb)
                 (py_round2 (if limit > 0 then fmul m 100 else Finite False 0 0))"
proof -
  have p1: "percent (cpu_now - cpu_pre) (sys_now - sys_pre) =
              Inr (if sys_now - sys_pre > 0 then fmul c 100 else Finite False 0 0)"
    using assms(8) by (simp add: percent_def)
  have p2: "percent used limit = Inr (if limit > 0 then fmul m 100 else Finite False 0 0)"
    using assms(10) by (simp add: percent_def)
  show ?thesis
    using assms(1-7,9) p1 p2 by (simp add: sample_def)
qed

lemma round_zero: "py_round2 (Finite False 0 0) = Finite False 0 0"
  by code_simp

text \<open>
  C8, amended. For a sample whose statistics hold the four CPU counters and the memory
  entry, and whose quotients fit a float, the reported figures are Python's
  \<^verbatim>\<open>round(x, 2)\<close> of the percentages computed in floating point: the CPU percent is
  \<^verbatim>\<open>round((cpu_delta / system_delta) * 100.0, 2)\<close>, or \<^verbatim>\<open>0.0\<close> when the system delta is
  not positive; the memory percent is \<^verbatim>\<open>round(usage / limit * 100, 2)\<close> with the usage
  and the limit that the statistics report (0 for a missing one), or \<^verbatim>\<open>0.0\<close> when that
  limit is not positive.
\<close>

theorem usage_percentages_rounded:
  assumes "container_stats w tr (Stats h) = Inr st"
    and "cpu_total_usage st = Inr cpu_now" and "precpu_total_usage st = Inr cpu_pre"
    and "cpu_system_usage st = Inr sys_now" and "precpu_system_usage st = Inr sys_pre"
    and "memory_stats st = Inr (usage_opt, limit_opt)"
    and "used = (case usage_opt of None \<Rightarrow> 0 | Some u \<Rightarrow> u)"
    and "limit = (case limit_opt of None \<Rightarrow> 0 | Some l \<Rightarrow> l)"
    and "sys_now - sys_pre > 0 \<longrightarrow> truediv (cpu_now - cpu_pre) (sys_now - sys_pre) = Inr c"
    and "truediv used (1024 * 1024) = Inr mb"
    and "limit > 0 \<longrightarrow> truediv used limit = Inr m"
  shows "fst (monitor_resources w h tr) =
           Usage (py_round2 (if sys_now - sys_pre > 0 then fmul c 100 else Finite False 0 0))
                 (py_round2 mb)
                 (py_round2 (if limit > 0 then fmul m 100 else Finite False 0 0)) \<and>
         (sys_now - sys_pre \<le> 0 \<longrightarrow>
            cpu_percent (fst (monitor_resources w h tr)) = Finite False 0 0) \<and>
         (limit \<le> 0 \<longrightarrow>
            memory_percent (fst (monitor_resources w h tr)) = Finite False 0 0)"
  using usage_percentages_rounded_core [OF assms(2-11)] assms(1) round_zero
  by (simp add: monitor_resources_def)

lemma tie_as_percent:
  "truediv (23 - 0) (160 - 0) = Inr (Finite False 5179139571476070 (- 55)) \<and>
   truediv 1048576 (1024 * 1024) = Inr (Finite False 4503599627370496 (- 52)) \<and>
   truediv 1048576 134217728 = Inr (Finite False 4503599627370496 (- 59)) \<and>
   fmul (Finite False 5179139571476070 (- 55)) 100 = Finite False 8092405580431359 (- 49) \<and>
   py_round2 (Finite False 8092405580431359 (- 49)) = Finite False 8089590830664253 (- 49) \<and>
   py_round2 (Finite False 4503599627370496 (- 52)) = Finite False 4503599627370496 (- 52) \<and>
   py_round2 (fmul (Finite False 4503599627370496 (- 59)) 100) = Finite False 7025615418697974 (- 53)"
  by code_simp

theorem usage_percentages_rounded_witness:
  "container_stats tied [] (Stats 7) = Inr tie_stats \<and>
   cpu_total_usage tie_stats = Inr 23 \<and> precpu_total_usage tie_stats = Inr 0 \<and>
   cpu_system_usage tie_stats = Inr 160 \<and> precpu_system_usage tie_stats = Inr 0 \<and>
   memory_stats tie_stats = Inr (Some 1048576, Some 134217728) \<and>
   truediv (23 - 0) (160 - 0) = Inr (Finite False 5179139571476070 (- 55)) \<and>
   truediv 1048576 (1024 * 1024) = Inr (Finite False 4503599627370496 (- 52)) \<and>
   truediv 1048576 134217728 = Inr (Finite False 4503599627370496 (- 59)) \<and>
   fst (monitor_resources tied 7 []) =
     Usage (Finite False 8089590830664253 (- 49)) (Finite False 4503599627370496 (- 52))
           (Finite False 7025615418697974 (- 53))"
proof -
  have s: "container_stats tied [] (Stats 7) = Inr tie_stats"
    by (simp add: tied_def calm_def)
  have f: "cpu_total_usage tie_stats = Inr 23" "precpu_total_usage tie_stats = Inr 0"
    "cpu_system_usage tie_stats = Inr 160" "precpu_system_usage tie_stats = Inr 0"
    "memory_stats tie_stats = Inr (Some 1048576, Some 134217728)"
    by (simp_all add: tie_stats_def)
  have u: "(1048576 :: int) = (case Some 1048576 of None \<Rightarrow> 0 | Some u \<Rightarrow> u)"
    "(134217728 :: int) = (case Some 134217728 of None \<Rightarrow> 0 | Some l \<Rightarrow> l)"
    by simp_all
  have d: "(160 :: int) - 0 > 0 \<longrightarrow> truediv (23 - 0) (160 - 0) = Inr (Finite False 5179139571476070 (- 55))"
    "truediv 1048576 (1024 * 1024) = Inr (Finite False 4503599627370496 (- 52))"
    "(134217728 :: int) > 0 \<longrightarrow> truediv 1048576 134217728 = Inr (Finite False 4503599627370496 (- 59))"
    using tie_as_percent by simp_all
  show ?thesis
    using usage_percentages_rounded [OF s f u d] s f tie_as_percent
    by simp
qed

subsection \<open>Updating limits\<close>

lemma str_int_256: "str_int 256 = ''256''"
  by (simp add: str_int_def digits.simps)

lemma quota_twenty_nine_hundredths: "py_int (fmul twenty_nine_hundredths 100000) = Inr 28999"
  unfolding twenty_nine_hundredths_def by code_simp

lemma resized_as_percent:
  "truediv 1048576 (256 * (1024 * 1024)) = Inr (Finite False 4503599627370496 (- 60)) \<and>
   py_round2 (fmul (Finite False 4503599627370496 (- 60)) 100) = Finite False 7025615418697974 (- 54)"
  by code_simp

text \<open>
  C9, as stated, fails. A quota given to the orchestrator's \<open>update_limits\<close> reaches an
  environment only when the next \<open>execute\<close> creates a fresh container with it: no update
  call is made. And the sandbox's \<open>update_limits\<close> on a live container reports success
  when Docker has rejected the update, so that the quota is not applied.
\<close>

theorem update_limits_counterexample:
  "snd (execute calm (fst (tool_update_limits a_tool (Some 256) None)) ''print(1)'' None None []) =
     [(FromEnv, None), (ImagesGet ''python:3.11-slim'', None),
      (Create ''python:3.11-slim'' ''256m'' 50000 100000 ''none'', None), (Start 7, None),
      (Stats 7, None), (Stop 7, None), (Remove 7, None)] \<and>
   update_limits rigid a_sandbox (Some 256) None [] =
     (LimitsDone (Some \<lparr>op_success = False, op_error = Some ''500 Server Error''\<rparr>) None,
      [(UpdateMem 7 ''256m'', Some allocation_error)])"
  by (simp add: execute_def execute_sandboxed_def SandboxExecutor_def sb_enter_def sb_exit_def
        sandboxed_body_def usage_success_def execute_in_container_def run_in_raises
        create_container_def create_and_start_def get_resource_usage_def monitor_resources_def
        cleanup_def unit_call_def validate_syntax_def py_or_def raised_def
        tool_update_limits_def a_tool_def CodeExecutionTool_def calm_def rigid_def
        update_limits_def set_memory_limit_def op_of_def a_sandbox_def allocation_error_def
        sample_sample_stats str_int_256 quota_half Let_def)

text \<open>
  C9, amended. On a sandbox that holds a container, \<open>update_limits\<close> makes one update
  call on that container for each quota given: \<^verbatim>\<open>mem_limit\<close> as the number of megabytes
  followed by \<^verbatim>\<open>m\<close>, then \<^verbatim>\<open>cpu_quota\<close> as \<^verbatim>\<open>int(cpu_limit * 100000)\<close>, computed in
  floating point, with \<^verbatim>\<open>cpu_period=100000\<close>. It makes no call for a quota left out and
  no other call, and returns the outcome of each call made under an overall success. The
  usage sample is read from the container's statistics alone; when the memory update has
  been accepted and the statistics then report the new ceiling as their limit, the memory
  percent is \<^verbatim>\<open>round(usage / ceiling * 100, 2)\<close>. The orchestrator's \<open>update_limits\<close>
  stores the quotas given in the tool, leaves the others as they were, and makes no call.
\<close>

theorem update_limits_forwarding:
  "(container sb = Some h \<longrightarrow>
      update_limits w sb None None tr = (LimitsDone None None, tr) \<and>
      (let rm = docker_unit w tr (UpdateMem h (str_int mb @ ''m''))
       in update_limits w sb (Some mb) None tr =
            (LimitsDone (Some (op_of rm)) None, tr @ [(UpdateMem h (str_int mb @ ''m''), rm)])) \<and>
      (py_int (fmul q 100000) = Inr quota \<longrightarrow>
        (let rc = docker_unit w tr (UpdateCpu h quota 100000)
         in update_limits w sb None (Some q) tr =
              (LimitsDone None (Some (op_of rc)), tr @ [(UpdateCpu h quota 100000, rc)])) \<and>
        (let rm = docker_unit w tr (UpdateMem h (str_int mb @ ''m''));
             rc = docker_unit w (tr @ [(UpdateMem h (str_int mb @ ''m''), rm)]) (UpdateCpu h quota 100000)
         in update_limits w sb (Some mb) (Some q) tr =
              (LimitsDone (Some (op_of rm)) (Some (op_of rc)),
               tr @ [(UpdateMem h (str_int mb @ ''m''), rm), (UpdateCpu h quota 100000, rc)]))) \<and>
      get_resource_usage w sb tr = monitor_resources w h tr \<and>
      (docker_unit w tr (UpdateMem h (str_int mb @ ''m'')) = None \<longrightarrow>
       container_stats w (snd (update_limits w sb (Some mb) None tr)) (Stats h) = Inr st \<longrightarrow>
       cpu_total_usage st = Inr cpu_now \<longrightarrow> precpu_total_usage st = Inr cpu_pre \<longrightarrow>
       cpu_system_usage st = Inr sys_now \<longrightarrow> precpu_system_usage st = Inr sys_pre \<longrightarrow>
       (sys_now - sys_pre > 0 \<longrightarrow> truediv (cpu_now - cpu_pre) (sys_now - sys_pre) = Inr c) \<longrightarrow>
       memory_stats st = Inr (Some used, Some (mb * (1024 * 1024))) \<longrightarrow>
       mb > 0 \<longrightarrow>
       truediv used (1024 * 1024) = Inr u \<longrightarrow>
       truediv used (mb * (1024 * 1024)) = Inr m \<longrightarrow>
       memory_percent (fst (get_resource_usage w sb (snd (update_limits w sb (Some mb) None tr)))) =
         py_round2 (fmul m 100))) \<and>
   tool_update_limits t None None = (t, True, memory_limit_mb t, cpu_limit t) \<and>
   tool_update_limits t (Some mb) None = (t\<lparr>memory_limit_mb := mb\<rparr>, True, mb, cpu_limit t) \<and>
   tool_update_limits t None (Some q) = (t\<lparr>cpu_limit := q\<rparr>, True, memory_limit_mb t, q) \<and>
   tool_update_limits t (Some mb) (Some q) = (t\<lparr>memory_limit_mb := mb, cpu_limit := q\<rparr>, True, mb, q)"
proof -
  have mem: "\<And>tr'. set_memory_limit w h mb tr' =
      (op_of (docker_unit w tr' (UpdateMem h (str_int mb @ ''m''))),
       tr' @ [(UpdateMem h (str_int mb @ ''m''), docker_unit w tr' (UpdateMem h (str_int mb @ ''m'')))])"
    by (simp add: set_memory_limit_def unit_call_def)
  have cpu: "\<And>tr'. py_int (fmul q 100000) = Inr quota \<Longrightarrow> set_cpu_limit w h q tr' =
      (op_of (docker_unit w tr' (UpdateCpu h quota 100000)),
       tr' @ [(UpdateCpu h quota 100000, docker_unit w tr' (UpdateCpu h quota 100000))])"
    by (simp add: set_cpu_limit_def unit_call_def)
  have tool: "tool_update_limits t None None = (t, True, memory_limit_mb t, cpu_limit t) \<and>
     tool_update_limits t (Some mb) None = (t\<lparr>memory_limit_mb := mb\<rparr>, True, mb, cpu_limit t) \<and>
     tool_update_limits t None (Some q) = (t\<lparr>cpu_limit := q\<rparr>, True, memory_limit_mb t, q) \<and>
     tool_update_limits t (Some mb) (Some q) = (t\<lparr>memory_limit_mb := mb, cpu_limit := q\<rparr>, True, mb, q)"
    by (simp add: tool_update_limits_def)
  have sandbox: "update_limits w sb None None tr = (LimitsDone None None, tr) \<and>
      (let rm = docker_unit w tr (UpdateMem h (str_int mb @ ''m''))
       in update_limits w sb (Some mb) None tr =
            (LimitsDone (Some (op_of rm)) None, tr @ [(UpdateMem h (str_int mb @ ''m''), rm)])) \<and>
      (py_int (fmul q 100000) = Inr quota \<longrightarrow>
        (let rc = docker_unit w tr (UpdateCpu h quota 100000)
         in update_limits w sb None (Some q) tr =
              (LimitsDone None (Some (op_of rc)), tr @ [(UpdateCpu h quota 100000, rc)])) \<and>
        (let rm = docker_unit w tr (UpdateMem h (str_int mb @ ''m''));
             rc = docker_unit w (tr @ [(UpdateMem h (str_int mb @ ''m''), rm)]) (UpdateCpu h quota 100000)
         in update_limits w sb (Some mb) (Some q) tr =
              (LimitsDone (Some (op_of rm)) (Some (op_of rc)),
               tr @ [(UpdateMem h (str_int mb @ ''m''), rm), (UpdateCpu h quota 100000, rc)]))) \<and>
      get_resource_usage w sb tr = monitor_resources w h tr"
    if "container sb = Some h"
    using that by (simp add: update_limits_def get_resource_usage_def mem cpu Let_def)
  have ceiling: "memory_percent (fst (get_resource_usage w sb (snd (update_limits w sb (Some mb) None tr)))) =
         py_round2 (fmul m 100)"
    if held: "container sb = Some h"
      and "docker_unit w tr (UpdateMem h (str_int mb @ ''m'')) = None"
      and st: "container_stats w (snd (update_limits w sb (Some mb) None tr)) (Stats h) = Inr st"
      and f: "cpu_total_usage st = Inr cpu_now" "precpu_total_usage st = Inr cpu_pre"
        "cpu_system_usage st = Inr sys_now" "precpu_system_usage st = Inr sys_pre"
      and c: "sys_now - sys_pre > 0 \<longrightarrow> truediv (cpu_now - cpu_pre) (sys_now - sys_pre) = Inr c"
      and ms: "memory_stats st = Inr (Some used, Some (mb * (1024 * 1024)))"
      and pos: "mb > 0"
      and u: "truediv used (1024 * 1024) = Inr u"
      and m: "truediv used (mb * (1024 * 1024)) = Inr m"
  proof -
    have l: "mb * (1024 * 1024) > 0 \<longrightarrow> truediv used (mb * (1024 * 1024)) = Inr m"
      using m by simp
    have e: "used = (case Some used of None \<Rightarrow> 0 | Some u \<Rightarrow> u)"
      "mb * (1024 * 1024) = (case Some (mb * (1024 * 1024)) of None \<Rightarrow> 0 | Some l \<Rightarrow> l)"
      by simp_all
    from usage_percentages_rounded_core [OF f ms e c u l] pos
    have "memory_percent (sample st) = py_round2 (fmul m 100)"
      by simp
    with held st show ?thesis
      by (simp add: get_resource_usage_def monitor_resources_def)
  qed
  show ?thesis
    using sandbox ceiling tool by blast
qed

lemma update_limits_resizing:
  "update_limits resizing a_sandbox (Some 256) None [] =
     (LimitsDone (Some \<lparr>op_success = True, op_error = None\<rparr>) None,
      [(UpdateMem 7 ''256m'', None)]) \<and>
   update_limits resizing a_sandbox (Some 256) (Some twenty_nine_hundredths) [] =
     (LimitsDone (Some \<lparr>op_success = True, op_error = None\<rparr>)
                 (Some \<lparr>op_success = True, op_error = None\<rparr>),
      [(UpdateMem 7 ''256m'', None), (UpdateCpu 7 28999 100000, None)])"
  by (simp add: update_limits_def set_memory_limit_def set_cpu_limit_def unit_call_def op_of_def
        resizing_def calm_def a_sandbox_def str_int_256 quota_twenty_nine_hundredths)

lemma usage_before_resizing:
  "fst (get_resource_usage resizing a_sandbox []) =
     Usage (Finite False 4690780486883082 (- 47)) (Finite False 4503599627370496 (- 52))
           (Finite False 7025615418697974 (- 53))"
  by (simp add: get_resource_usage_def monitor_resources_def resizing_def calm_def a_sandbox_def
        sample_sample_stats)

theorem update_limits_forwarding_witness:
  "container a_sandbox = Some 7 \<and>
   py_int (fmul twenty_nine_hundredths 100000) = Inr 28999 \<and>
   docker_unit resizing [] (UpdateMem 7 (str_int 256 @ ''m'')) = None \<and>
   update_limits resizing a_sandbox (Some 256) None [] =
     (LimitsDone (Some \<lparr>op_success = True, op_error = None\<rparr>) None,
      [(UpdateMem 7 ''256m'', None)]) \<and>
   update_limits resizing a_sandbox (Some 256) (Some twenty_nine_hundredths) [] =
     (LimitsDone (Some \<lparr>op_success = True, op_error = None\<rparr>)
                 (Some \<lparr>op_success = True, op_error = None\<rparr>),
      [(UpdateMem 7 ''256m'', None), (UpdateCpu 7 28999 100000, None)]) \<and>
   container_stats resizing [(UpdateMem 7 ''256m'', None)] (Stats 7) = Inr resized_stats \<and>
   memory_stats resized_stats = Inr (Some 1048576, Some (256 * (1024 * 1024))) \<and>
   truediv 1048576 (256 * (1024 * 1024)) = Inr (Finite False 4503599627370496 (- 60)) \<and>
   py_round2 (fmul (Finite False 4503599627370496 (- 60)) 100) = Finite False 7025615418697974 (- 54) \<and>
   memory_percent (fst (get_resource_usage resizing a_sandbox [])) =
     Finite False 7025615418697974 (- 53) \<and>
   memory_percent (fst (get_resource_usage resizing a_sandbox [(UpdateMem 7 ''256m'', None)])) =
     Finite False 7025615418697974 (- 54)"
proof -
  have c: "container a_sandbox = Some 7"
    by (simp add: a_sandbox_def)
  have a: "docker_unit resizing [] (UpdateMem 7 (str_int 256 @ ''m'')) = None"
    by (simp add: resizing_def calm_def)
  have l: "snd (update_limits resizing a_sandbox (Some 256) None []) = [(UpdateMem 7 ''256m'', None)]"
    using update_limits_resizing by simp
  have s: "container_stats resizing [(UpdateMem 7 ''256m'', None)] (Stats 7) = Inr resized_stats"
    by (simp add: resizing_def)
  have f: "cpu_total_usage resized_stats = Inr 1" "precpu_total_usage resized_stats = Inr 0"
    "cpu_system_usage resized_stats = Inr 3" "precpu_system_usage resized_stats = Inr 0"
    "memory_stats resized_stats = Inr (Some 1048576, Some (256 * (1024 * 1024)))"
    by (simp_all add: resized_stats_def sample_stats_def)
  have d: "(3 :: int) - 0 > 0 \<longrightarrow> truediv (1 - 0) (3 - 0) = Inr (Finite False 6004799503160661 (- 54))"
    "truediv 1048576 (1024 * 1024) = Inr (Finite False 4503599627370496 (- 52))"
    using third_as_percent tie_as_percent by simp_all
  note t = update_limits_forwarding [where sb = a_sandbox and h = 7 and w = resizing and tr = "[]"
      and mb = 256 and q = twenty_nine_hundredths and quota = 28999 and st = resized_stats
      and cpu_now = 1 and cpu_pre = 0 and sys_now = 3 and sys_pre = 0
      and c = "Finite False 6004799503160661 (- 54)" and used = 1048576
      and u = "Finite False 4503599627370496 (- 52)" and m = "Finite False 4503599627370496 (- 60)"
      and t = a_tool]
  show ?thesis
    using t c a l s f d resized_as_percent update_limits_resizing usage_before_resizing
      quota_twenty_nine_hundredths
    by simp
qed

subsection \<open>Teardown\<close>

lemma cleanup_log:
  assumes "cleanup w sb tr = (r, sb', tr')" and "container sb = Some h"
  shows "(\<exists>e. tr' = tr @ [(Stop h, Some e)]) \<or> (\<exists>x. tr' = tr @ [(Stop h, None), (Remove h, x)])"
  using assms
  by (auto simp: cleanup_def unit_call_def Let_def split: option.splits)

lemma cleanup_nothing_held:
  "container sb = None \<Longrightarrow> cleanup w sb tr = (Inr \<lparr>op_success = True, op_error = None\<rparr>, sb, tr)"
  by (simp add: cleanup_def)

lemma teardown_stop_failed: "teardown_at_end h (tr @ [(Stop h, Some e)])"
  by (simp add: teardown_at_end_def)

lemma teardown_removed: "teardown_at_end h (tr @ [(Stop h, None), (Remove h, x)])"
  by (simp add: teardown_at_end_def)

lemma env_state_stop_failed: "env_state h (tr @ [(Stop h, Some e)]) = TeardownFailed"
  by (simp add: env_state_def)

lemma env_state_removed:
  "env_state h (tr @ [(Stop h, None), (Remove h, x)]) = (if x = None then Destroyed else TeardownFailed)"
  by (simp add: env_state_def)

text \<open>Once \<^verbatim>\<open>__enter__\<close> has returned, the log that \<open>execute_sandboxed\<close> returns is the
  one that \<^verbatim>\<open>cleanup\<close> leaves, whether the body returned or raised.\<close>

lemma execute_sandboxed_log:
  assumes "SandboxExecutor w ''python:3.11-slim'' tmo (memory_limit_mb t) (cpu_limit t) tr = (Inr sb, tr0)"
    and "sb_enter w sb tr0 = (None, sb1, tr1)"
    and "sandboxed_body w sb1 code tr1 = (body, sb2, tr2)"
  shows "snd (execute_sandboxed w t code tmo tr) = snd (snd (cleanup w sb2 tr2))"
  using assms
  by (simp add: execute_sandboxed_def sb_exit_def Let_def
           split: prod.splits option.splits sum.splits)

lemma execute_in_sandbox_mode:
  "ast_parse w code = Parsed \<Longrightarrow> use_sandbox t \<or> sandbox = Some True \<Longrightarrow>
   snd (execute w t code sandbox timeout0 tr) =
     snd (execute_sandboxed w t code (py_or timeout0 (timeout t)) tr)"
  by (auto simp: execute_def validate_accepts Let_def split: prod.splits)

text \<open>When \<^verbatim>\<open>__enter__\<close> itself raises, which it does when creating or starting the
  container raises an exception that is not a \<^verbatim>\<open>DockerException\<close>, the body is not
  entered and \<^verbatim>\<open>cleanup\<close> is not called: a container created but not started stays.\<close>

lemma enter_failure_skips_cleanup:
  "execute unstartable a_tool ''print(1)'' None None [] =
     (Inr \<lparr>success = False, output' = None, error = Some ''Connection aborted.'',
           error_type = Some ''ConnectionError'', sandboxed = True, resource_usage = None\<rparr>,
      [(FromEnv, None), (ImagesGet ''python:3.11-slim'', None),
       (Create ''python:3.11-slim'' ''128m'' 50000 100000 ''none'', None),
       (Start 7, Some connection_error)])"
  by (simp add: execute_def execute_sandboxed_def SandboxExecutor_def sb_enter_def
        create_container_def create_and_start_def unit_call_def docker_failure_def
        is_DockerException_def validate_syntax_def py_or_def raised_def tagged_def
        exception_result_def a_tool_def CodeExecutionTool_def unstartable_def calm_def
        connection_error_def str_int_128 quota_half Let_def)

text \<open>
  C4. Take a call of the orchestrator's \<open>execute\<close> in sandbox mode on an accepted source,
  in which the sandbox has been constructed and \<^verbatim>\<open>__enter__\<close> has returned. However the
  body of the \<^verbatim>\<open>with\<close> statement ends, returning a result or raising an exception, the
  calls of \<^verbatim>\<open>cleanup\<close> are the last ones logged when \<open>execute\<close> returns: if the sandbox
  holds a container \<open>h\<close> when the body ends, the log of the body is followed by the stop of
  \<open>h\<close> that raised, or by the stop and then the removal of \<open>h\<close>, and nothing else, so that
  \<open>h\<close> is \<open>Destroyed\<close>, or \<open>TeardownFailed\<close> when the stop or the removal raised; if it
  holds none, nothing is added to the log of the body.
\<close>

theorem teardown_on_every_exit:
  assumes "ast_parse w code = Parsed"
    and "use_sandbox t \<or> sandbox = Some True"
    and "SandboxExecutor w ''python:3.11-slim'' (py_or timeout0 (timeout t)) (memory_limit_mb t)
           (cpu_limit t) tr = (Inr sb, tr0)"
    and "sb_enter w sb tr0 = (None, sb1, tr1)"
    and "sandboxed_body w sb1 code tr1 = (body, sb2, tr2)"
    and "tr' = snd (execute w t code sandbox timeout0 tr)"
  shows "(container sb2 = None \<longrightarrow> tr' = tr2) \<and>
         (\<forall>h. container sb2 = Some h \<longrightarrow>
            ((\<exists>e. tr' = tr2 @ [(Stop h, Some e)]) \<or>
             (\<exists>x. tr' = tr2 @ [(Stop h, None), (Remove h, x)])) \<and>
            teardown_at_end h tr' \<and>
            (env_state h tr' = Destroyed \<or> env_state h tr' = TeardownFailed))"
proof -
  have log: "tr' = snd (snd (cleanup w sb2 tr2))"
    using assms(6) execute_in_sandbox_mode [OF assms(1,2)] execute_sandboxed_log [OF assms(3-5)]
    by simp
  show ?thesis
  proof (intro conjI allI impI)
    assume "container sb2 = None"
    with log show "tr' = tr2"
      by (simp add: cleanup_nothing_held)
  next
    fix h
    assume held: "container sb2 = Some h"
    obtain r sb3 where c: "cleanup w sb2 tr2 = (r, sb3, tr')"
      using log by (cases "cleanup w sb2 tr2") auto
    from cleanup_log [OF c held]
    show "(\<exists>e. tr' = tr2 @ [(Stop h, Some e)]) \<or> (\<exists>x. tr' = tr2 @ [(Stop h, None), (Remove h, x)])" .
    then show "teardown_at_end h tr'"
      by (auto simp: teardown_stop_failed teardown_removed)
    from cleanup_log [OF c held]
    show "env_state h tr' = Destroyed \<or> env_state h tr' = TeardownFailed"
      by (auto simp: env_state_stop_failed env_state_removed split: if_splits)
  qed
qed

lemma quiet_flaky: "docker_unit flaky tr FromEnv = None"
  by (simp add: flaky_def unstartable_def calm_def)

lemma constructed_flaky:
  "SandboxExecutor flaky ''python:3.11-slim'' (Some 30) 128 half [] =
     (Inr a_fresh_sandbox, [(FromEnv, None)])"
  by (simp add: SandboxExecutor_def unit_call_def quiet_flaky a_fresh_sandbox_def a_sandbox_def)

lemma entered_flaky:
  "sb_enter flaky a_fresh_sandbox [(FromEnv, None)] =
     (None, a_fresh_sandbox,
      [(FromEnv, None), (ImagesGet ''python:3.11-slim'', None),
       (Create ''python:3.11-slim'' ''128m'' 50000 100000 ''none'', Some allocation_error)])"
  by (simp add: sb_enter_def create_container_def create_and_start_def unit_call_def
        docker_failure_def is_DockerException_def raised_def flaky_def unstartable_def calm_def
        is_create_def allocation_error_def a_fresh_sandbox_def a_sandbox_def str_int_128
        quota_half)

lemma body_flaky:
  "sandboxed_body flaky a_fresh_sandbox ''print(1)''
     [(FromEnv, None), (ImagesGet ''python:3.11-slim'', None),
      (Create ''python:3.11-slim'' ''128m'' 50000 100000 ''none'', Some allocation_error)] =
     (Inl connection_error, a_sandbox,
      [(FromEnv, None), (ImagesGet ''python:3.11-slim'', None),
       (Create ''python:3.11-slim'' ''128m'' 50000 100000 ''none'', Some allocation_error),
       (ImagesGet ''python:3.11-slim'', None),
       (Create ''python:3.11-slim'' ''128m'' 50000 100000 ''none'', None),
       (Start 7, Some connection_error)])"
  by (simp add: sandboxed_body_def execute_in_container_def create_container_def
        create_and_start_def unit_call_def docker_failure_def is_DockerException_def raised_def
        flaky_def unstartable_def calm_def is_create_def connection_error_def
        a_fresh_sandbox_def a_sandbox_def str_int_128 quota_half)

lemma execute_flaky:
  "execute flaky a_tool ''print(1)'' None None [] =
     (Inr \<lparr>success = False, output' = None, error = Some ''Connection aborted.'',
           error_type = Some ''ConnectionError'', sandboxed = True, resource_usage = None\<rparr>,
      [(FromEnv, None), (ImagesGet ''python:3.11-slim'', None),
       (Create ''python:3.11-slim'' ''128m'' 50000 100000 ''none'', Some allocation_error),
       (ImagesGet ''python:3.11-slim'', None),
       (Create ''python:3.11-slim'' ''128m'' 50000 100000 ''none'', None),
       (Start 7, Some connection_error), (Stop 7, None), (Remove 7, None)])"
proof -
  have p: "validate_syntax flaky ''print(1)'' = Inr \<lparr>valid = True, v_error = None\<rparr>"
    by (simp add: validate_syntax_def flaky_def unstartable_def calm_def)
  have t: "use_sandbox a_tool" "py_or None (timeout a_tool) = Some 30"
    "memory_limit_mb a_tool = 128" "cpu_limit a_tool = half"
    by (simp_all add: a_tool_def CodeExecutionTool_def py_or_def)
  have x: "sb_exit flaky a_sandbox
      [(FromEnv, None), (ImagesGet ''python:3.11-slim'', None),
       (Create ''python:3.11-slim'' ''128m'' 50000 100000 ''none'', Some allocation_error),
       (ImagesGet ''python:3.11-slim'', None),
       (Create ''python:3.11-slim'' ''128m'' 50000 100000 ''none'', None),
       (Start 7, Some connection_error)] =
     (None, a_fresh_sandbox,
      [(FromEnv, None), (ImagesGet ''python:3.11-slim'', None),
       (Create ''python:3.11-slim'' ''128m'' 50000 100000 ''none'', Some allocation_error),
       (ImagesGet ''python:3.11-slim'', None),
       (Create ''python:3.11-slim'' ''128m'' 50000 100000 ''none'', None),
       (Start 7, Some connection_error), (Stop 7, None), (Remove 7, None)])"
    by (simp add: sb_exit_def cleanup_def unit_call_def raised_def flaky_def unstartable_def
          calm_def a_fresh_sandbox_def a_sandbox_def)
  have e: "exc_str connection_error = ''Connection aborted.''"
    "exc_name connection_error = ''ConnectionError''"
    by (simp_all add: connection_error_def)
  show ?thesis
    by (simp add: execute_def execute_sandboxed_def p t constructed_flaky entered_flaky
          body_flaky x e tagged_def exception_result_def)
qed

theorem teardown_on_every_exit_witness:
  "ast_parse flaky ''print(1)'' = Parsed \<and> use_sandbox a_tool \<and>
   SandboxExecutor flaky ''python:3.11-slim'' (py_or None (timeout a_tool)) (memory_limit_mb a_tool)
     (cpu_limit a_tool) [] = (Inr a_fresh_sandbox, [(FromEnv, None)]) \<and>
   sb_enter flaky a_fresh_sandbox [(FromEnv, None)] =
     (None, a_fresh_sandbox,
      [(FromEnv, None), (ImagesGet ''python:3.11-slim'', None),
       (Create ''python:3.11-slim'' ''128m'' 50000 100000 ''none'', Some allocation_error)]) \<and>
   sandboxed_body flaky a_fresh_sandbox ''print(1)''
     [(FromEnv, None), (ImagesGet ''python:3.11-slim'', None),
      (Create ''python:3.11-slim'' ''128m'' 50000 100000 ''none'', Some allocation_error)] =
     (Inl connection_error, a_sandbox,
      [(FromEnv, None), (ImagesGet ''python:3.11-slim'', None),
       (Create ''python:3.11-slim'' ''128m'' 50000 100000 ''none'', Some allocation_error),
       (ImagesGet ''python:3.11-slim'', None),
       (Create ''python:3.11-slim'' ''128m'' 50000 100000 ''none'', None),
       (Start 7, Some connection_error)]) \<and>
   container a_sandbox = Some 7 \<and>
   snd (execute flaky a_tool ''print(1)'' None None []) =
     [(FromEnv, None), (ImagesGet ''python:3.11-slim'', None),
      (Create ''python:3.11-slim'' ''128m'' 50000 100000 ''none'', Some allocation_error),
      (ImagesGet ''python:3.11-slim'', None),
      (Create ''python:3.11-slim'' ''128m'' 50000 100000 ''none'', None),
      (Start 7, Some connection_error), (Stop 7, None), (Remove 7, None)] \<and>
   teardown_at_end 7 (snd (execute flaky a_tool ''print(1)'' None None [])) \<and>
   (env_state 7 (snd (execute flaky a_tool ''print(1)'' None None [])) = Destroyed \<or>
    env_state 7 (snd (execute flaky a_tool ''print(1)'' None None [])) = TeardownFailed)"
proof -
  have p: "ast_parse flaky ''print(1)'' = Parsed"
    by (simp add: flaky_def unstartable_def calm_def)
  have u: "use_sandbox a_tool \<or> None = Some True"
    by (simp add: a_tool_def CodeExecutionTool_def)
  have t: "py_or None (timeout a_tool) = Some 30" "memory_limit_mb a_tool = 128"
    "cpu_limit a_tool = half"
    by (simp_all add: a_tool_def CodeExecutionTool_def py_or_def)
  have i: "SandboxExecutor flaky ''python:3.11-slim'' (py_or None (timeout a_tool))
      (memory_limit_mb a_tool) (cpu_limit a_tool) [] = (Inr a_fresh_sandbox, [(FromEnv, None)])"
    by (simp add: t constructed_flaky)
  have c: "container a_sandbox = Some 7"
    by (simp add: a_sandbox_def)
  note w = teardown_on_every_exit [OF p u i entered_flaky body_flaky refl]
  have "teardown_at_end 7 (snd (execute flaky a_tool ''print(1)'' None None [])) \<and>
     (env_state 7 (snd (execute flaky a_tool ''print(1)'' None None [])) = Destroyed \<or>
      env_state 7 (snd (execute flaky a_tool ''print(1)'' None None [])) = TeardownFailed)"
    using w c by blast
  then show ?thesis
    using p u i c entered_flaky body_flaky execute_flaky by simp
qed

end
